theory Spec2Isabelle
  imports Complex_Main
begin

section \<open>Values shared by the mail dispatcher and the webhook router\<close>

text \<open>
  JavaScript numbers are modelled exactly: counters and attempt numbers as \<open>nat\<close>,
  the retry limit as \<open>int\<close> (a caller may pass zero or a negative number), amounts,
  delays and rates as \<open>real\<close> (the rounding of IEEE doubles is not modelled).
  A \<open>Date\<close> is its number of milliseconds since the epoch. A thrown value is an
  \<open>error\<close> carrying its message.
\<close>

datatype error = Error string

type_synonym Date = int

section \<open>Mail dispatcher (src/lib/email.ts)\<close>

subsection \<open>Data\<close>

record LastFailed =
  emailType :: string
  recipient :: string
  error :: "error option"
  timestamp :: Date

record EmailMetrics =
  totalSent :: nat
  totalFailed :: nat
  lastFailed :: "LastFailed option"
  deliveryRate :: real

text \<open>The fields of \<open>nodemailer.SendMailOptions\<close> that the callers fill in.\<close>

record SendMailOptions =
  mailFrom :: string
  mailTo :: string
  subject :: string
  html :: string

record SentMessageInfo =
  info_messageId :: string

record SendResult =
  success :: bool
  messageId :: string
  attempts :: nat

text \<open>
  What one call of \<open>sendWithRetry\<close> meets outside the module: \<open>sendMail env n\<close> is
  the outcome of \<open>transporter.sendMail\<close> when it is called while the loop variable
  \<open>attempt\<close> is \<open>n\<close> (\<open>Inl\<close> a rejection), \<open>math_random env a\<close> the value that
  \<open>Math.random()\<close> returns in the backoff after failed attempt number \<open>a\<close>, and
  \<open>now env\<close> the value of \<open>new Date()\<close> when the failure snapshot is taken.
\<close>

record MailEnv =
  sendMail :: "nat \<Rightarrow> SendMailOptions \<Rightarrow> error + SentMessageInfo"
  math_random :: "nat \<Rightarrow> real"
  now :: Date

text \<open>
  The calls that leave the module, in the order they are made: a transport attempt and
  a \<open>setTimeout\<close> with its delay. Console output is not recorded.
\<close>

datatype effect = SendMail SendMailOptions | SetTimeout real

subsection \<open>Metrics\<close>

definition emailMetrics :: EmailMetrics where
  "emailMetrics = \<lparr>totalSent = 0, totalFailed = 0, lastFailed = None, deliveryRate = 100\<rparr>"

definition updateDeliveryRate :: "EmailMetrics \<Rightarrow> EmailMetrics" where
  "updateDeliveryRate m =
     (let totalAttempts = totalSent m + totalFailed m
      in m\<lparr>deliveryRate :=
             (if totalAttempts > 0 then (real (totalSent m) / real totalAttempts) * 100 else 100)\<rparr>)"

subsection \<open>Retry with exponential backoff\<close>

text \<open>
  The \<open>while\<close> loop of \<open>sendWithRetry\<close> together with the code after it, which runs
  when the loop is left without a \<open>return\<close>. The result is \<open>Inr\<close> the returned object
  or \<open>Inl\<close> the thrown \<open>lastError\<close> (\<open>None\<close> is JavaScript's \<open>null\<close>), the updated
  metrics, and the effects so far.
\<close>

function sendLoop ::
  "MailEnv \<Rightarrow> EmailMetrics \<Rightarrow> SendMailOptions \<Rightarrow> string \<Rightarrow> int \<Rightarrow> real \<Rightarrow>
   nat \<Rightarrow> error option \<Rightarrow> effect list \<Rightarrow>
   (error option + SendResult) \<times> EmailMetrics \<times> effect list" where
  "sendLoop env m mailOptions emailType' maxRetries baseDelay attempt lastError tr =
     (if int attempt < maxRetries then
        (case sendMail env attempt mailOptions of
           Inr info \<Rightarrow>
             (Inr \<lparr>success = True, messageId = info_messageId info, attempts = attempt + 1\<rparr>,
              updateDeliveryRate (m\<lparr>totalSent := totalSent m + 1\<rparr>),
              tr @ [SendMail mailOptions])
         | Inl err \<Rightarrow>
             (let attempt' = attempt + 1;
                  tr' = tr @ [SendMail mailOptions] @
                    (if int attempt' < maxRetries
                     then [SetTimeout (baseDelay * 2 ^ (attempt' - 1) + math_random env attempt' * 500)]
                     else [])
              in sendLoop env m mailOptions emailType' maxRetries baseDelay attempt' (Some err) tr'))
      else
        (Inl lastError,
         (updateDeliveryRate (m\<lparr>totalFailed := totalFailed m + 1\<rparr>))
           \<lparr>lastFailed := Some \<lparr>emailType = emailType', recipient = mailTo mailOptions,
                                 error = lastError, timestamp = now env\<rparr>\<rparr>,
         tr))"
  by pat_completeness auto
termination
  by (relation "measure (\<lambda>(env, m, mailOptions, emailType', maxRetries, baseDelay, attempt, lastError, tr).
        nat (maxRetries - int attempt))") auto

definition sendWithRetry ::
  "MailEnv \<Rightarrow> EmailMetrics \<Rightarrow> SendMailOptions \<Rightarrow> string \<Rightarrow> int \<Rightarrow> real \<Rightarrow>
   (error option + SendResult) \<times> EmailMetrics \<times> effect list" where
  "sendWithRetry env m mailOptions emailType' maxRetries baseDelay =
     sendLoop env m mailOptions emailType' maxRetries baseDelay 0 None []"

text \<open>
  A delivery sequence is one call of \<open>sendWithRetry\<close> run to its end. The metrics are
  only written in the two blocks that end a sequence, and no \<open>await\<close> separates the
  writes of a block, so any interleaving of concurrent calls changes the metrics as the
  calls in their order of completion do.
\<close>

record Delivery =
  d_env :: MailEnv
  d_mailOptions :: SendMailOptions
  d_emailType :: string
  d_maxRetries :: int
  d_baseDelay :: real

definition deliver :: "EmailMetrics \<Rightarrow> Delivery \<Rightarrow> EmailMetrics" where
  "deliver m d =
     fst (snd (sendWithRetry (d_env d) m (d_mailOptions d) (d_emailType d) (d_maxRetries d) (d_baseDelay d)))"

definition succeeded :: "Delivery \<Rightarrow> bool" where
  "succeeded d \<longleftrightarrow>
     \<not> isl (fst (sendWithRetry (d_env d) emailMetrics (d_mailOptions d) (d_emailType d) (d_maxRetries d) (d_baseDelay d)))"

definition deliveries :: "EmailMetrics \<Rightarrow> Delivery list \<Rightarrow> EmailMetrics" where
  "deliveries m ds = foldl deliver m ds"

text \<open>The delivery rate that the two counters of a metrics record determine.\<close>

definition rateOf :: "EmailMetrics \<Rightarrow> real" where
  "rateOf m = (if totalSent m + totalFailed m = 0 then 100
               else real (totalSent m) / real (totalSent m + totalFailed m) * 100)"

text \<open>
  The effects of the failed attempts made while \<open>attempt\<close> runs from \<open>a\<close> up to
  \<open>k\<close> (excluded), each followed by its backoff wait, and the delays of the waits of a
  list of effects.
\<close>

definition rounds :: "SendMailOptions \<Rightarrow> real \<Rightarrow> MailEnv \<Rightarrow> nat \<Rightarrow> nat \<Rightarrow> effect list" where
  "rounds mailOptions baseDelay env a k =
     concat (map (\<lambda>i. [SendMail mailOptions,
                        SetTimeout (baseDelay * 2 ^ i + math_random env (Suc i) * 500)]) [a..<k])"

fun waits :: "effect list \<Rightarrow> real list" where
  "waits [] = []"
| "waits (SendMail _ # tr) = waits tr"
| "waits (SetTimeout d # tr) = d # waits tr"

subsection \<open>Concrete runs\<close>

definition mail0 :: SendMailOptions where
  "mail0 = \<lparr>mailFrom = ''donations@yourchurch.org'', mailTo = ''donor@example.org'',
            subject = ''Thank you for your General Donation donation'', html = ''<p>Thank you</p>''\<rparr>"

text \<open>A transport that rejects every attempt, and one that accepts the third.\<close>

definition envDown :: MailEnv where
  "envDown = \<lparr>sendMail = (\<lambda>n mo. Inl (Error (if n = 2 then ''ETIMEDOUT'' else ''ECONNREFUSED''))),
              math_random = (\<lambda>a. 1 / 4), now = 1700000000000\<rparr>"

definition envThird :: MailEnv where
  "envThird = \<lparr>sendMail = (\<lambda>n mo. if n < 2 then Inl (Error ''ECONNRESET'')
                                    else Inr \<lparr>info_messageId = ''<1@smtp>''\<rparr>),
               math_random = (\<lambda>a. 1 / 2), now = 1700000000000\<rparr>"

section \<open>Webhook router (the Stripe webhook route, src/unnamed/part_000)\<close>

subsection \<open>Values of JavaScript\<close>

text \<open>
  An optional string (\<open>string | null | undefined\<close>) is a \<open>string option\<close>. It is
  truthy when it is present and not empty; \<open>a || d\<close> is \<open>orElse a d\<close> when \<open>d\<close> is
  a string and \<open>orOpt a b\<close> when \<open>b\<close> may be absent too.
\<close>

definition truthy :: "string option \<Rightarrow> bool" where
  "truthy a = (case a of None \<Rightarrow> False | Some v \<Rightarrow> v \<noteq> [])"

definition orElse :: "string option \<Rightarrow> string \<Rightarrow> string" where
  "orElse a d = (case a of None \<Rightarrow> d | Some v \<Rightarrow> if v \<noteq> [] then v else d)"

definition orOpt :: "string option \<Rightarrow> string option \<Rightarrow> string option" where
  "orOpt a b = (if truthy a then a else b)"

text \<open>\<open>toUpperCase\<close> on the ASCII letters (currency codes are ASCII).\<close>

definition toUpperCase :: "string \<Rightarrow> string" where
  "toUpperCase s =
     map (\<lambda>c. let n = (of_char c :: nat) in if 97 \<le> n \<and> n \<le> 122 then char_of (n - 32) else c) s"

text \<open>\<open>`${error}`\<close> for an \<open>Error\<close> object.\<close>

fun errorToString :: "error \<Rightarrow> string" where
  "errorToString (Error msg) = ''Error: '' @ msg"

subsection \<open>Data\<close>

text \<open>
  The fields of \<open>event.data.object\<close> that the handlers read, under Stripe's names
  (\<open>obj_id\<close> is \<open>id\<close>, \<open>obj_status\<close> is \<open>status\<close>). The handlers cast the object
  to \<open>Stripe.PaymentIntent\<close>, \<open>Stripe.Invoice\<close> or \<open>Stripe.Subscription\<close>; a cast
  does nothing at run time, so one record carries the fields of all three. References to
  other objects are ids, as Stripe sends them in a webhook payload. A missing
  \<open>metadata\<close> is the empty map (\<open>metadata || {}\<close>, \<open>metadata?.key\<close>).
\<close>

record EventObject =
  obj_id :: "string option"
  metadata :: "string \<rightharpoonup> string"
  invoice :: "string option"
  latest_charge :: "string option"
  amount :: int
  currency :: string
  created :: int
  subscription :: "string option"
  customer :: string
  customer_email :: "string option"
  payment_intent :: "string option"
  amount_paid :: int
  amount_due :: int
  hosted_invoice_url :: "string option"
  next_payment_attempt :: "int option"
  billing_reason :: "string option"
  obj_status :: string

record Event =
  event_type :: string
  data_object :: EventObject

record Request =
  req_body :: string
  stripe_signature :: "string option"

text \<open>
  A \<open>NextResponse.json\<close>: the HTTP status (200 when none is given) and the
  \<open>received\<close> and \<open>error\<close> members of the body.
\<close>

record Response =
  status :: nat
  body_received :: bool
  body_error :: "string option"

text \<open>What the Stripe API returns for the objects the handlers retrieve.\<close>

record BillingDetails =
  bd_email :: "string option"
  bd_phone :: "string option"

record Card =
  brand :: string
  last4 :: string

record PaymentMethodDetails =
  pmd_card :: "Card option"
  pmd_type :: "string option"

record Charge =
  charge_id :: string
  billing_details :: "BillingDetails option"
  receipt_url :: "string option"
  payment_method_details :: "PaymentMethodDetails option"

record Customer =
  cust_email :: "string option"
  cust_name :: "string option"
  cust_phone :: "string option"

datatype CustomerResponse = LiveCustomer Customer | DeletedCustomer

record Subscription =
  sub_id :: string
  sub_metadata :: "string \<rightharpoonup> string"

record RetrievedPaymentIntent =
  pi_latest_charge :: "Charge option"

text \<open>\<open>DonorRecord\<close>, the \<open>Partial<DonorRecord>\<close> built as \<open>donorUpdate\<close>, and \<open>DonationRecord\<close>.
  Dates are kept as milliseconds; their rendering by \<open>toISOString\<close> is not modelled.\<close>

record DonorRecord =
  donor_name :: "string option"
  donor_email :: string
  donor_phone :: "string option"
  totalDonations :: "real option"
  lastDonationDate :: "Date option"
  donationFrequency :: "string option"

record DonorUpdate =
  upd_name :: string
  upd_phone :: "string option"
  upd_totalDonations :: real
  upd_lastDonationDate :: Date
  upd_donationFrequency :: "string option"

record DonationRecord =
  rec_amount :: real
  rec_currency :: string
  rec_donationType :: string
  rec_frequency :: "string option"
  rec_donorName :: string
  rec_donorEmail :: string
  rec_donorPhone :: "string option"
  rec_paymentMethod :: string
  rec_paymentStatus :: string
  rec_isRecurring :: bool
  rec_stripePaymentIntentId :: "string option"
  rec_stripeChargeId :: "string option"
  rec_stripeSubscriptionId :: "string option"
  rec_receiptUrl :: "string option"
  rec_date :: Date

text \<open>The argument of \<open>saveDonationRecord\<close>.\<close>

record DonationData =
  data_email :: string
  data_name :: string
  data_phone :: "string option"
  data_amount :: real
  data_currency :: string
  data_donationType :: string
  data_frequency :: "string option"
  data_paymentMethod :: string
  data_isRecurring :: bool
  data_stripePaymentIntentId :: "string option"
  data_stripeChargeId :: "string option"
  data_stripeSubscriptionId :: "string option"
  data_receiptUrl :: "string option"
  data_created :: Date

record DonationEmailParams =
  p_to :: string
  p_donorName :: string
  p_amount :: real
  p_donationType :: string
  p_receiptUrl :: "string option"
  p_createdDate :: Date
  p_paymentMethod :: string
  p_currency :: string
  p_frequency :: string
  p_isRecurring :: bool
  p_unsubscribeLink :: "string option"

record PaymentFailedEmailParams =
  pf_to :: string
  pf_donorName :: string
  pf_invoiceId :: string
  pf_amount :: real
  pf_currency :: string
  pf_hostedInvoiceUrl :: string
  pf_billingReason :: string
  pf_nextRetryDate :: Date
  pf_updatePaymentUrl :: string

subsection \<open>Collaborators and the calls made to them\<close>

text \<open>
  The collaborators of one request: the signature check of the Stripe library
  (\<open>stripe.webhooks.constructEvent\<close> with the configured secret), the retrievals of
  the Stripe API, the donors and donations tables of the database client (\<open>lib/xata\<close>,
  whose source is not at hand: \<open>filter({email}).getFirst()\<close>, \<open>update(key, fields)\<close>
  and \<open>create(record)\<close>), the two mail functions of \<open>lib/email\<close> (they render a
  template, and a receipt for a donation, and hand the message to \<open>sendWithRetry\<close>;
  they throw what any of these throws), and \<open>NEXT_PUBLIC_SITE_URL\<close>. What a
  collaborator answers is a parameter: \<open>Inr\<close> its result or \<open>Inl\<close> the error it
  throws; a table operation may also answer \<open>null\<close> (\<open>None\<close>).
\<close>

record Services =
  constructEvent :: "string \<Rightarrow> string \<Rightarrow> error + Event"
  charges_retrieve :: "string \<Rightarrow> error + Charge"
  subscriptions_retrieve :: "string \<Rightarrow> error + Subscription"
  customers_retrieve :: "string \<Rightarrow> error + CustomerResponse"
  paymentIntents_retrieve :: "string \<Rightarrow> error + RetrievedPaymentIntent"
  donors_getFirst :: "string \<Rightarrow> error + DonorRecord option"
  donors_update :: "string \<Rightarrow> DonorUpdate \<Rightarrow> error + DonorRecord option"
  donors_create :: "DonorRecord \<Rightarrow> error + DonorRecord option"
  donations_create :: "DonationRecord \<Rightarrow> error + DonationRecord option"
  sendDonationEmail :: "DonationEmailParams \<Rightarrow> error + unit"
  sendPaymentFailedEmail :: "PaymentFailedEmailParams \<Rightarrow> error + unit"
  siteUrl :: string

text \<open>
  The calls of a request in the order they are made: the entry into a handler, and
  every call to the payment processor, the storage and the mail functions.
\<close>

datatype call =
    Handler string
  | ChargesRetrieve string
  | SubscriptionsRetrieve string
  | CustomersRetrieve string
  | PaymentIntentsRetrieve string
  | DonorsGetFirst string
  | DonorsUpdate string DonorUpdate
  | DonorsCreate DonorRecord
  | DonationsCreate DonationRecord
  | SendDonationEmail DonationEmailParams
  | SendPaymentFailedEmail PaymentFailedEmailParams

text \<open>
  An asynchronous computation: its result (\<open>Inl\<close> when it throws) and the calls it
  has made. \<open>andThen\<close> is sequencing with \<open>await\<close>, \<open>tryCatch\<close> a
  \<open>try\<close>/\<open>catch\<close> block, \<open>promiseAll\<close> a \<open>Promise.all\<close> of two requests (both
  are issued; it throws when one of them does).
\<close>

type_synonym 'a io = "(error + 'a) \<times> call list"

definition ret :: "'a \<Rightarrow> 'a io" where
  "ret x = (Inr x, [])"

definition throw :: "error \<Rightarrow> 'a io" where
  "throw e = (Inl e, [])"

definition request :: "call \<Rightarrow> error + 'a \<Rightarrow> 'a io" where
  "request c answer = (answer, [c])"

definition andThen :: "'a io \<Rightarrow> ('a \<Rightarrow> 'b io) \<Rightarrow> 'b io" where
  "andThen m f =
     (case m of
        (Inl e, t) \<Rightarrow> (Inl e, t)
      | (Inr x, t) \<Rightarrow> (case f x of (r, t') \<Rightarrow> (r, t @ t')))"

definition tryCatch :: "'a io \<Rightarrow> (error \<Rightarrow> 'a io) \<Rightarrow> 'a io" where
  "tryCatch m h =
     (case m of
        (Inl e, t) \<Rightarrow> (case h e of (r, t') \<Rightarrow> (r, t @ t'))
      | (Inr x, t) \<Rightarrow> (Inr x, t))"

definition promiseAll :: "'a io \<Rightarrow> 'b io \<Rightarrow> ('a \<times> 'b) io" where
  "promiseAll p q =
     (case p of (r1, t1) \<Rightarrow> case q of (r2, t2) \<Rightarrow>
        ((case r1 of Inl e \<Rightarrow> Inl e
          | Inr x \<Rightarrow> (case r2 of Inl e \<Rightarrow> Inl e | Inr y \<Rightarrow> Inr (x, y))),
         t1 @ t2))"

definition entering :: "string \<Rightarrow> 'a io \<Rightarrow> 'a io" where
  "entering handler m = (case m of (r, t) \<Rightarrow> (r, Handler handler # t))"

subsection \<open>Responses\<close>

definition received :: Response where
  "received = \<lparr>status = 200, body_received = True, body_error = None\<rparr>"

definition receivedMissingEmail :: Response where
  "receivedMissingEmail = \<lparr>status = 200, body_received = True, body_error = Some ''Missing email''\<rparr>"

definition rejected :: "nat \<Rightarrow> string \<Rightarrow> Response" where
  "rejected code msg = \<lparr>status = code, body_received = False, body_error = Some msg\<rparr>"

subsection \<open>Helpers of the handlers\<close>

definition bullets :: string where
  "bullets = concat (replicate 4 [CHR 0xE2, CHR 0x80, CHR 0xA2])"

definition getPaymentMethodType :: "Charge option \<Rightarrow> string" where
  "getPaymentMethodType charge =
     (case charge of
        None \<Rightarrow> ''card''
      | Some c \<Rightarrow>
          (case Option.bind (payment_method_details c) pmd_card of
             Some cardDetails \<Rightarrow> brand cardDetails @ '' '' @ bullets @ '' '' @ last4 cardDetails
           | None \<Rightarrow> orElse (Option.bind (payment_method_details c) pmd_type) ''card''))"

definition saveDonationRecord :: "Services \<Rightarrow> DonationData \<Rightarrow> (DonorRecord \<times> DonationRecord) io" where
  "saveDonationRecord env data =
     (if data_email data = [] \<or> data_amount data = 0
      then throw (Error ''Missing required donation data: email or amount'')
      else tryCatch
        (andThen (request (DonorsGetFirst (data_email data)) (donors_getFirst env (data_email data)))
          (\<lambda>donor.
             let donorUpdate =
               \<lparr>upd_name = data_name data,
                upd_phone = data_phone data,
                upd_totalDonations =
                  (case Option.bind donor totalDonations of None \<Rightarrow> 0 | Some t \<Rightarrow> t) + data_amount data,
                upd_lastDonationDate = data_created data,
                upd_donationFrequency = data_frequency data\<rparr>
             in andThen
               (case donor of
                  Some d \<Rightarrow>
                    request (DonorsUpdate (donor_email d) donorUpdate)
                      (donors_update env (donor_email d) donorUpdate)
                | None \<Rightarrow>
                    (let newDonor =
                       \<lparr>donor_name = Some (upd_name donorUpdate),
                        donor_email = data_email data,
                        donor_phone = upd_phone donorUpdate,
                        totalDonations = Some (upd_totalDonations donorUpdate),
                        lastDonationDate = Some (upd_lastDonationDate donorUpdate),
                        donationFrequency = upd_donationFrequency donorUpdate\<rparr>
                     in request (DonorsCreate newDonor) (donors_create env newDonor)))
               (\<lambda>donor'.
                  case donor' of
                    None \<Rightarrow> throw (Error ''Failed to create or update donor record'')
                  | Some savedDonor \<Rightarrow>
                      (let donationRecord =
                         \<lparr>rec_amount = data_amount data,
                          rec_currency = data_currency data,
                          rec_donationType = data_donationType data,
                          rec_frequency = data_frequency data,
                          rec_donorName = data_name data,
                          rec_donorEmail = data_email data,
                          rec_donorPhone = data_phone data,
                          rec_paymentMethod = data_paymentMethod data,
                          rec_paymentStatus = ''succeeded'',
                          rec_isRecurring = data_isRecurring data,
                          rec_stripePaymentIntentId = data_stripePaymentIntentId data,
                          rec_stripeChargeId = data_stripeChargeId data,
                          rec_stripeSubscriptionId = data_stripeSubscriptionId data,
                          rec_receiptUrl = data_receiptUrl data,
                          rec_date = data_created data\<rparr>
                       in andThen
                         (request (DonationsCreate donationRecord) (donations_create env donationRecord))
                         (\<lambda>donation.
                            case donation of
                              None \<Rightarrow> throw (Error ''Failed to create donation record'')
                            | Some savedDonation \<Rightarrow> ret (savedDonor, savedDonation))))))
        (\<lambda>err. throw (Error (''Failed to save donation record: '' @ errorToString err))))"

subsection \<open>Handlers\<close>

definition handlePaymentIntentSucceeded :: "Services \<Rightarrow> Event \<Rightarrow> Response io" where
  "handlePaymentIntentSucceeded env event =
     (let paymentIntent = data_object event;
          metadata' = metadata paymentIntent
      in if truthy (metadata' ''subscriptionId'') \<or> truthy (invoice paymentIntent)
         then ret received
         else andThen
           (case latest_charge paymentIntent of
              None \<Rightarrow> ret None
            | Some chargeId \<Rightarrow>
                if chargeId = [] then ret None
                else andThen (request (ChargesRetrieve chargeId) (charges_retrieve env chargeId))
                       (\<lambda>c. ret (Some c)))
           (\<lambda>charge.
              let donorData =
                \<lparr>data_email = orElse (metadata' ''donorEmail'')
                                (orElse (Option.bind (Option.bind charge billing_details) bd_email) ''''),
                 data_name = orElse (metadata' ''donorName'') ''Anonymous'',
                 data_phone = Some (orElse (metadata' ''donorPhone'')
                                (orElse (Option.bind (Option.bind charge billing_details) bd_phone) '''')),
                 data_amount = real_of_int (amount paymentIntent) / 100,
                 data_currency = toUpperCase (currency paymentIntent),
                 data_donationType = orElse (metadata' ''donationType'') ''General Donation'',
                 data_frequency = Some (orElse (metadata' ''frequency'') ''one-time''),
                 data_paymentMethod = getPaymentMethodType charge,
                 data_isRecurring = False,
                 data_stripePaymentIntentId = obj_id paymentIntent,
                 data_stripeChargeId = map_option charge_id charge,
                 data_stripeSubscriptionId = None,
                 data_receiptUrl = Some (orElse (Option.bind charge receipt_url) ''''),
                 data_created = created paymentIntent * 1000\<rparr>
              in if data_email donorData = []
                 then ret receivedMissingEmail
                 else andThen
                   (tryCatch
                      (andThen (saveDonationRecord env donorData)
                         (\<lambda>saved.
                            let params =
                              \<lparr>p_to = data_email donorData,
                               p_donorName = data_name donorData,
                               p_amount = data_amount donorData,
                               p_donationType = data_donationType donorData,
                               p_receiptUrl = data_receiptUrl donorData,
                               p_createdDate = data_created donorData,
                               p_paymentMethod = data_paymentMethod donorData,
                               p_currency = data_currency donorData,
                               p_frequency = orElse (data_frequency donorData) [],
                               p_isRecurring = False,
                               p_unsubscribeLink = None\<rparr>
                            in request (SendDonationEmail params) (sendDonationEmail env params)))
                      (\<lambda>err. ret ()))
                   (\<lambda>finished. ret received)))"

definition handleInvoicePaymentSucceeded :: "Services \<Rightarrow> Event \<Rightarrow> Response io" where
  "handleInvoicePaymentSucceeded env event =
     (let invoice' = data_object event
      in case subscription invoice' of
           None \<Rightarrow> ret received
         | Some subscriptionId \<Rightarrow>
             if subscriptionId = [] then ret received
             else andThen
               (promiseAll
                  (request (SubscriptionsRetrieve subscriptionId) (subscriptions_retrieve env subscriptionId))
                  (request (CustomersRetrieve (customer invoice')) (customers_retrieve env (customer invoice'))))
               (\<lambda>(subscription', customer').
                  case (case customer' of
                          LiveCustomer c \<Rightarrow>
                            Some (orElse (customer_email invoice') (orElse (cust_email c) ''''),
                                  orElse (cust_name c)
                                    (orElse (sub_metadata subscription' ''donorName'') ''Recurring Donor''),
                                  orOpt (cust_phone c) (sub_metadata subscription' ''donorPhone''))
                        | DeletedCustomer \<Rightarrow>
                            if truthy (customer_email invoice')
                            then Some (orElse (customer_email invoice') [], ''Recurring Donor'', None)
                            else None) of
                    None \<Rightarrow> ret receivedMissingEmail
                  | Some (customerEmail, customerName, customerPhone) \<Rightarrow>
                      andThen
                        (case payment_intent invoice' of
                           None \<Rightarrow> ret ''card''
                         | Some paymentIntentId \<Rightarrow>
                             if paymentIntentId = [] then ret ''card''
                             else tryCatch
                               (andThen
                                  (request (PaymentIntentsRetrieve paymentIntentId)
                                     (paymentIntents_retrieve env paymentIntentId))
                                  (\<lambda>paymentIntent. ret (getPaymentMethodType (pi_latest_charge paymentIntent))))
                               (\<lambda>err. ret ''card''))
                        (\<lambda>paymentMethod.
                           let donationData =
                             \<lparr>data_email = customerEmail,
                              data_name = customerName,
                              data_phone = customerPhone,
                              data_amount = real_of_int (amount_paid invoice') / 100,
                              data_currency = toUpperCase (currency invoice'),
                              data_donationType =
                                orElse (sub_metadata subscription' ''donationType'') ''Recurring Donation'',
                              data_frequency = Some (orElse (sub_metadata subscription' ''frequency'') ''monthly''),
                              data_paymentMethod = paymentMethod,
                              data_isRecurring = True,
                              data_stripePaymentIntentId = payment_intent invoice',
                              data_stripeChargeId = None,
                              data_stripeSubscriptionId = Some (sub_id subscription'),
                              data_receiptUrl = Some (orElse (hosted_invoice_url invoice') ''''),
                              data_created = created invoice' * 1000\<rparr>
                           in andThen
                             (tryCatch
                                (andThen (saveDonationRecord env donationData)
                                   (\<lambda>saved.
                                      let params =
                                        \<lparr>p_to = data_email donationData,
                                         p_donorName = data_name donationData,
                                         p_amount = data_amount donationData,
                                         p_donationType = data_donationType donationData,
                                         p_receiptUrl = data_receiptUrl donationData,
                                         p_createdDate = data_created donationData,
                                         p_paymentMethod = data_paymentMethod donationData,
                                         p_currency = data_currency donationData,
                                         p_frequency = orElse (data_frequency donationData) [],
                                         p_isRecurring = True,
                                         p_unsubscribeLink =
                                           Some (siteUrl env @ ''/donations/manage?customer_id='' @
                                                 customer invoice')\<rparr>
                                      in request (SendDonationEmail params) (sendDonationEmail env params)))
                                (\<lambda>err. ret ()))
                             (\<lambda>finished. ret received))))"

text \<open>
  The handlers that look the customer up only to log: \<open>handleSubscriptionCreated\<close>,
  \<open>handleSubscriptionDeleted\<close>, \<open>handleSubscriptionPastDue\<close> and
  \<open>handleSubscriptionUnpaid\<close> have the same body up to what they print.
\<close>

definition handleSubscriptionCreated :: "Services \<Rightarrow> Event \<Rightarrow> Response io" where
  "handleSubscriptionCreated env event =
     (let subscription' = data_object event
      in andThen
        (tryCatch
           (andThen (request (CustomersRetrieve (customer subscription'))
                       (customers_retrieve env (customer subscription')))
              (\<lambda>customer'. ret ()))
           (\<lambda>err. ret ()))
        (\<lambda>finished. ret received))"

definition handleSubscriptionUpdated :: "Services \<Rightarrow> Event \<Rightarrow> Response io" where
  "handleSubscriptionUpdated env event = ret received"

definition handleSubscriptionDeleted :: "Services \<Rightarrow> Event \<Rightarrow> Response io" where
  "handleSubscriptionDeleted env event =
     (let subscription' = data_object event
      in andThen
        (tryCatch
           (andThen (request (CustomersRetrieve (customer subscription'))
                       (customers_retrieve env (customer subscription')))
              (\<lambda>customer'. ret ()))
           (\<lambda>err. ret ()))
        (\<lambda>finished. ret received))"

definition handlePaymentFailed :: "Services \<Rightarrow> Event \<Rightarrow> Response io" where
  "handlePaymentFailed env event =
     (let invoice' = data_object event;
          subscriptionId = subscription invoice'
      in andThen
        (tryCatch
           (andThen (request (CustomersRetrieve (customer invoice'))
                       (customers_retrieve env (customer invoice')))
              (\<lambda>customer'.
                 case customer' of
                   LiveCustomer c \<Rightarrow> ret (cust_email c, orElse (cust_name c) ''Donor'')
                 | DeletedCustomer \<Rightarrow> ret (None, ''Donor'')))
           (\<lambda>err. ret (None, ''Donor'')))
        (\<lambda>(customerEmail, customerName).
           if truthy customerEmail \<and> truthy subscriptionId
           then andThen
             (tryCatch
                (andThen (request (SubscriptionsRetrieve (orElse subscriptionId []))
                            (subscriptions_retrieve env (orElse subscriptionId [])))
                   (\<lambda>subscription'.
                      let params =
                        \<lparr>pf_to = orElse customerEmail [],
                         pf_donorName = customerName,
                         pf_invoiceId = (case obj_id invoice' of None \<Rightarrow> '''' | Some i \<Rightarrow> i),
                         pf_amount = real_of_int (amount_due invoice') / 100,
                         pf_currency = toUpperCase (currency invoice'),
                         pf_hostedInvoiceUrl = orElse (hosted_invoice_url invoice') '''',
                         pf_billingReason = orElse (billing_reason invoice') ''subscription_cycle'',
                         pf_nextRetryDate =
                           (case next_payment_attempt invoice' of
                              None \<Rightarrow> 0
                            | Some t \<Rightarrow> if t = 0 then 0 else t * 1000),
                         pf_updatePaymentUrl =
                           siteUrl env @ ''/donations/update-payment?customer_id='' @ customer invoice'\<rparr>
                      in request (SendPaymentFailedEmail params) (sendPaymentFailedEmail env params)))
                (\<lambda>err. ret ()))
             (\<lambda>finished. ret received)
           else ret received))"

definition handlePaymentActionRequired :: "Services \<Rightarrow> Event \<Rightarrow> Response io" where
  "handlePaymentActionRequired env event = ret received"

definition handleSubscriptionPastDue :: "Services \<Rightarrow> Event \<Rightarrow> Response io" where
  "handleSubscriptionPastDue env event =
     (let subscription' = data_object event
      in andThen
        (tryCatch
           (andThen (request (CustomersRetrieve (customer subscription'))
                       (customers_retrieve env (customer subscription')))
              (\<lambda>customer'. ret ()))
           (\<lambda>err. ret ()))
        (\<lambda>finished. ret received))"

definition handleSubscriptionUnpaid :: "Services \<Rightarrow> Event \<Rightarrow> Response io" where
  "handleSubscriptionUnpaid env event =
     (let subscription' = data_object event
      in andThen
        (tryCatch
           (andThen (request (CustomersRetrieve (customer subscription'))
                       (customers_retrieve env (customer subscription')))
              (\<lambda>customer'. ret ()))
           (\<lambda>err. ret ()))
        (\<lambda>finished. ret received))"

subsection \<open>The route\<close>

definition POST :: "Services \<Rightarrow> Request \<Rightarrow> Response \<times> call list" where
  "POST env req =
     (let body = req_body req
      in case stripe_signature req of
           None \<Rightarrow> (rejected 400 ''Missing Stripe signature'', [])
         | Some sig \<Rightarrow>
             if sig = [] then (rejected 400 ''Missing Stripe signature'', [])
             else
               (case constructEvent env body sig of
                  Inl err \<Rightarrow> (rejected 400 ''Invalid signature'', [])
                | Inr event \<Rightarrow>
                    (case
                       (if event_type event = ''payment_intent.succeeded''
                        then entering ''handlePaymentIntentSucceeded'' (handlePaymentIntentSucceeded env event)
                        else if event_type event = ''invoice.payment_succeeded''
                        then entering ''handleInvoicePaymentSucceeded'' (handleInvoicePaymentSucceeded env event)
                        else if event_type event = ''customer.subscription.created''
                        then entering ''handleSubscriptionCreated'' (handleSubscriptionCreated env event)
                        else if event_type event = ''customer.subscription.updated''
                        then entering ''handleSubscriptionUpdated'' (handleSubscriptionUpdated env event)
                        else if event_type event = ''customer.subscription.deleted''
                        then entering ''handleSubscriptionDeleted'' (handleSubscriptionDeleted env event)
                        else if event_type event = ''invoice.payment_failed''
                        then entering ''handlePaymentFailed'' (handlePaymentFailed env event)
                        else if event_type event = ''invoice.payment_action_required''
                        then entering ''handlePaymentActionRequired'' (handlePaymentActionRequired env event)
                        else if event_type event = ''customer.subscription.past_due''
                        then entering ''handleSubscriptionPastDue'' (handleSubscriptionPastDue env event)
                        else if event_type event = ''customer.subscription.unpaid''
                        then entering ''handleSubscriptionUnpaid'' (handleSubscriptionUnpaid env event)
                        else ret received) of
                       (Inr response, tr) \<Rightarrow> (response, tr)
                     | (Inl err, tr) \<Rightarrow> (rejected 500 ''Failed to process webhook'', tr))))"

definition handledTypes :: "string list" where
  "handledTypes =
     [''payment_intent.succeeded'', ''invoice.payment_succeeded'', ''customer.subscription.created'',
      ''customer.subscription.updated'', ''customer.subscription.deleted'', ''invoice.payment_failed'',
      ''invoice.payment_action_required'', ''customer.subscription.past_due'',
      ''customer.subscription.unpaid'']"

subsection \<open>What a request wrote, and how it was answered\<close>




text \<open>A handler run that ends in a response with status 200 and \<open>received: true\<close>.\<close>

definition acknowledged :: "Response io \<Rightarrow> bool" where
  "acknowledged m = (case fst m of Inl e \<Rightarrow> False | Inr r \<Rightarrow> status r = 200 \<and> body_received r)"

text \<open>
  The lookups that a handler makes outside any \<open>try\<close> block of its own: the charge
  of a one-time payment intent, and the subscription and customer of a subscription
  invoice. \<open>propagatingLookupFails\<close> holds when the event reaches one of them and
  it throws.
\<close>

definition propagatingLookupFails :: "Services \<Rightarrow> Event \<Rightarrow> bool" where
  "propagatingLookupFails env event =
     (let obj = data_object event
      in (event_type event = ''payment_intent.succeeded'' \<and>
          \<not> truthy (metadata obj ''subscriptionId'') \<and> \<not> truthy (invoice obj) \<and>
          truthy (latest_charge obj) \<and> isl (charges_retrieve env (orElse (latest_charge obj) [])))
         \<or>
         (event_type event = ''invoice.payment_succeeded'' \<and> truthy (subscription obj) \<and>
          (isl (subscriptions_retrieve env (orElse (subscription obj) [])) \<or>
           isl (customers_retrieve env (customer obj)))))"

subsection \<open>Concrete requests\<close>

definition noObject :: EventObject where
  "noObject = \<lparr>obj_id = Some ''obj_1'', metadata = Map.empty, invoice = None, latest_charge = None,
     amount = 0, currency = ''usd'', created = 1700000000, subscription = None, customer = ''cus_1'',
     customer_email = None, payment_intent = None, amount_paid = 0, amount_due = 0,
     hosted_invoice_url = None, next_payment_attempt = None, billing_reason = None,
     obj_status = ''active''\<rparr>"

definition donor0 :: DonorRecord where
  "donor0 = \<lparr>donor_name = Some ''Ada'', donor_email = ''ada@example.org'', donor_phone = None,
     totalDonations = Some 40, lastDonationDate = None, donationFrequency = Some ''monthly''\<rparr>"

text \<open>
  Collaborators that all answer: the signature \<open>''good''\<close> is the valid one and
  decodes the body into an event of the type the body names, carrying the given object;
  the donor \<open>ada@example.org\<close> exists.
\<close>

definition services :: "EventObject \<Rightarrow> Services" where
  "services obj =
     \<lparr>constructEvent = (\<lambda>body sig. if sig = ''good''
                                     then Inr \<lparr>event_type = body, data_object = obj\<rparr>
                                     else Inl (Error ''No signatures found matching the expected signature'')),
      charges_retrieve = (\<lambda>i. Inl (Error ''No such charge'')),
      subscriptions_retrieve = (\<lambda>i. Inr \<lparr>sub_id = i, sub_metadata = Map.empty\<rparr>),
      customers_retrieve = (\<lambda>i. Inr (LiveCustomer \<lparr>cust_email = Some ''ada@example.org'',
                                        cust_name = Some ''Ada'', cust_phone = None\<rparr>)),
      paymentIntents_retrieve = (\<lambda>i. Inl (Error ''No such payment_intent'')),
      donors_getFirst = (\<lambda>e. Inr (if e = ''ada@example.org'' then Some donor0 else None)),
      donors_update = (\<lambda>k u. Inr (Some donor0)),
      donors_create = (\<lambda>d. Inr (Some d)),
      donations_create = (\<lambda>r. Inr (Some r)),
      sendDonationEmail = (\<lambda>p. Inr ()),
      sendPaymentFailedEmail = (\<lambda>p. Inr ()),
      siteUrl = ''https://example.org''\<rparr>"

text \<open>
  Event objects: a payment intent of a subscription, a paid subscription invoice and a
  subscription invoice with nothing paid (a trial).
\<close>

definition skippedIntent :: EventObject where
  "skippedIntent = noObject\<lparr>metadata := [''subscriptionId'' \<mapsto> ''sub_1'', ''donorEmail'' \<mapsto> ''ada@example.org''],
     amount := 2500\<rparr>"

definition paidInvoice :: EventObject where
  "paidInvoice = noObject\<lparr>subscription := Some ''sub_1'', customer_email := Some ''ada@example.org'',
     amount_paid := 2500\<rparr>"


text \<open>
  A signed request whose body names the event type, collaborators whose storage is down,
  and collaborators whose subscription lookup fails.
\<close>

definition request0 :: "string \<Rightarrow> Request" where
  "request0 eventType = \<lparr>req_body = eventType, stripe_signature = Some ''good''\<rparr>"

definition storageDown :: "EventObject \<Rightarrow> Services" where
  "storageDown obj = (services obj)\<lparr>donors_getFirst := (\<lambda>e. Inl (Error ''connection refused''))\<rparr>"

definition stripeDown :: "EventObject \<Rightarrow> Services" where
  "stripeDown obj = (services obj)\<lparr>subscriptions_retrieve := (\<lambda>i. Inl (Error ''api_connection_error''))\<rparr>"

section \<open>Properties of the mail dispatcher\<close>

subsection \<open>One step of the retry loop\<close>

declare sendLoop.simps [simp del]

lemma sendLoop_exhausted:
  "\<not> int a < mx \<Longrightarrow>
   sendLoop env m mo ty mx b a le tr =
     (Inl le,
      (updateDeliveryRate (m\<lparr>totalFailed := totalFailed m + 1\<rparr>))
        \<lparr>lastFailed := Some \<lparr>emailType = ty, recipient = mailTo mo, error = le, timestamp = now env\<rparr>\<rparr>,
      tr)"
  by (subst sendLoop.simps) simp

lemma sendLoop_sent:
  "int a < mx \<Longrightarrow> sendMail env a mo = Inr info \<Longrightarrow>
   sendLoop env m mo ty mx b a le tr =
     (Inr \<lparr>success = True, messageId = info_messageId info, attempts = a + 1\<rparr>,
      updateDeliveryRate (m\<lparr>totalSent := totalSent m + 1\<rparr>),
      tr @ [SendMail mo])"
  by (subst sendLoop.simps) simp

lemma sendLoop_retry:
  "int a < mx \<Longrightarrow> sendMail env a mo = Inl err \<Longrightarrow>
   sendLoop env m mo ty mx b a le tr =
     sendLoop env m mo ty mx b (Suc a) (Some err)
       (tr @ [SendMail mo] @
          (if int (Suc a) < mx then [SetTimeout (b * 2 ^ a + math_random env (Suc a) * 500)] else []))"
  by (subst sendLoop.simps) (simp add: Let_def)

lemma updateDeliveryRate_rate: "deliveryRate (updateDeliveryRate m) = rateOf m"
  by (simp add: updateDeliveryRate_def Let_def rateOf_def)

lemma sendLoop_metrics:
  "sendLoop env m mo ty mx b a le tr = (r, m', tr') \<Longrightarrow>
     (\<not> isl r \<and> totalSent m' = totalSent m + 1 \<and> totalFailed m' = totalFailed m \<and> lastFailed m' = lastFailed m
      \<or> isl r \<and> totalSent m' = totalSent m \<and> totalFailed m' = totalFailed m + 1)
     \<and> deliveryRate m' = rateOf m'"
proof (induction "nat (mx - int a)" arbitrary: a le tr)
  case 0
  then have "\<not> int a < mx" by simp
  with "0.prems" show ?case
    by (auto simp: sendLoop_exhausted updateDeliveryRate_def Let_def rateOf_def)
next
  case (Suc n)
  then have lt: "int a < mx" by linarith
  show ?case
  proof (cases "sendMail env a mo")
    case (Inr info)
    with lt Suc.prems show ?thesis
      by (auto simp: sendLoop_sent updateDeliveryRate_def Let_def rateOf_def)
  next
    case (Inl err)
    from Suc.hyps(2) have n: "n = nat (mx - int (Suc a))" by simp
    from Suc.prems show ?thesis
      unfolding sendLoop_retry [OF lt Inl] by (rule Suc.hyps(1) [OF n])
  qed
qed

lemma sendLoop_result_indep:
  "fst (sendLoop env m mo ty mx b a le tr) = fst (sendLoop env m0 mo ty mx b a le tr0)"
proof (induction "nat (mx - int a)" arbitrary: a le tr tr0)
  case 0
  then have "\<not> int a < mx" by simp
  then show ?case by (simp add: sendLoop_exhausted)
next
  case (Suc n)
  then have lt: "int a < mx" by linarith
  show ?case
  proof (cases "sendMail env a mo")
    case (Inr info)
    with lt show ?thesis by (simp add: sendLoop_sent)
  next
    case (Inl err)
    from Suc.hyps(2) have n: "n = nat (mx - int (Suc a))" by simp
    show ?thesis
      unfolding sendLoop_retry [OF lt Inl] by (rule Suc.hyps(1) [OF n])
  qed
qed

lemma deliver_counts:
  "totalSent (deliver m d) = totalSent m + (if succeeded d then 1 else 0)"
  "totalFailed (deliver m d) = totalFailed m + (if succeeded d then 0 else 1)"
  "deliveryRate (deliver m d) = rateOf (deliver m d)"
proof -
  obtain r m' tr' where eq: "sendWithRetry (d_env d) m (d_mailOptions d) (d_emailType d) (d_maxRetries d) (d_baseDelay d) = (r, m', tr')"
    by (cases "sendWithRetry (d_env d) m (d_mailOptions d) (d_emailType d) (d_maxRetries d) (d_baseDelay d)") auto
  have s: "succeeded d \<longleftrightarrow> \<not> isl r"
    unfolding succeeded_def using eq sendLoop_result_indep [of "d_env d" emailMetrics _ _ _ _ 0 None "[]" m "[]"]
    by (simp add: sendWithRetry_def)
  have d: "deliver m d = m'" by (simp add: deliver_def eq)
  from sendLoop_metrics [OF eq [unfolded sendWithRetry_def]] s d
  show "totalSent (deliver m d) = totalSent m + (if succeeded d then 1 else 0)"
    "totalFailed (deliver m d) = totalFailed m + (if succeeded d then 0 else 1)"
    "deliveryRate (deliver m d) = rateOf (deliver m d)"
    by auto
qed

lemma deliveries_snoc: "deliveries m (ds @ [d]) = deliver (deliveries m ds) d"
  by (simp add: deliveries_def)

lemma deliveries_counts:
  "totalSent (deliveries emailMetrics ds) = length (filter succeeded ds) \<and>
   totalFailed (deliveries emailMetrics ds) = length (filter (\<lambda>d. \<not> succeeded d) ds) \<and>
   deliveryRate (deliveries emailMetrics ds) = rateOf (deliveries emailMetrics ds)"
proof (induction ds rule: rev_induct)
  case Nil
  show ?case by (simp add: deliveries_def emailMetrics_def rateOf_def)
next
  case (snoc d ds)
  then show ?case by (simp add: deliveries_snoc deliver_counts)
qed

text \<open>
  Claim C1. After any sequence of completed delivery sequences, from the zeroed metrics
  of process start, \<open>totalSent + totalFailed\<close> is the number of completed sequences
  (\<open>totalSent\<close> counting the successful ones and \<open>totalFailed\<close> the exhausted ones),
  and \<open>deliveryRate\<close> is \<open>totalSent / (totalSent + totalFailed) * 100\<close>, or 100 when
  no sequence has completed.
\<close>

theorem metrics_invariant:
  "totalSent (deliveries emailMetrics ds) + totalFailed (deliveries emailMetrics ds) = length ds \<and>
   totalSent (deliveries emailMetrics ds) = length (filter succeeded ds) \<and>
   totalFailed (deliveries emailMetrics ds) = length (filter (\<lambda>d. \<not> succeeded d) ds) \<and>
   deliveryRate (deliveries emailMetrics ds) =
     (if totalSent (deliveries emailMetrics ds) + totalFailed (deliveries emailMetrics ds) = 0 then 100
      else real (totalSent (deliveries emailMetrics ds)) /
           real (totalSent (deliveries emailMetrics ds) + totalFailed (deliveries emailMetrics ds)) * 100)"
proof -
  let ?m = "deliveries emailMetrics ds"
  have c: "length (filter succeeded ds) + length (filter (\<lambda>d. \<not> succeeded d) ds) = length ds"
    by (rule sum_length_filter_compl)
  from deliveries_counts [of ds]
  have a: "totalSent ?m = length (filter succeeded ds)"
    and b: "totalFailed ?m = length (filter (\<lambda>d. \<not> succeeded d) ds)"
    and r: "deliveryRate ?m = rateOf ?m"
    by simp_all
  from a b c have "totalSent ?m + totalFailed ?m = length ds" by linarith
  moreover note a b
  moreover from r have "deliveryRate ?m =
     (if totalSent ?m + totalFailed ?m = 0 then 100
      else real (totalSent ?m) / real (totalSent ?m + totalFailed ?m) * 100)"
    unfolding rateOf_def .
  ultimately show ?thesis by blast
qed

subsection \<open>The course of the retry loop\<close>

lemma rounds_empty: "rounds mo b env a a = []"
  by (simp add: rounds_def)

lemma rounds_Cons:
  "a < k \<Longrightarrow> rounds mo b env a k =
     SendMail mo # SetTimeout (b * 2 ^ a + math_random env (Suc a) * 500) # rounds mo b env (Suc a) k"
  by (simp add: rounds_def upt_conv_Cons)

lemma rounds_snoc:
  "a \<le> k \<Longrightarrow> rounds mo b env a (Suc k) =
     rounds mo b env a k @ [SendMail mo, SetTimeout (b * 2 ^ k + math_random env (Suc k) * 500)]"
  by (simp add: rounds_def)

text \<open>Success at the attempt made while \<open>attempt = k\<close>, after failures from \<open>a\<close> on.\<close>

lemma sendLoop_succeeds_at:
  assumes "\<forall>i. a \<le> i \<and> i < k \<longrightarrow> isl (sendMail env i mo)"
    and "sendMail env k mo = Inr info" and "int k < mx" and "a \<le> k"
  shows "sendLoop env m mo ty mx b a le tr =
     (Inr \<lparr>success = True, messageId = info_messageId info, attempts = k + 1\<rparr>,
      updateDeliveryRate (m\<lparr>totalSent := totalSent m + 1\<rparr>),
      tr @ rounds mo b env a k @ [SendMail mo])"
  using assms
proof (induction "k - a" arbitrary: a le tr)
  case 0
  then have "a = k" by simp
  with 0 show ?case by (simp add: sendLoop_sent rounds_empty)
next
  case (Suc n)
  then have ak: "a < k" by simp
  with Suc.prems have lt: "int a < mx" and lt': "int (Suc a) < mx" by simp_all
  from ak Suc.prems(1) obtain err where e: "sendMail env a mo = Inl err"
    by (cases "sendMail env a mo") auto
  from Suc.hyps(2) have n: "n = k - Suc a" by simp
  have f: "\<forall>i. Suc a \<le> i \<and> i < k \<longrightarrow> isl (sendMail env i mo)"
    using Suc.prems(1) by simp
  from ak have sk: "Suc a \<le> k" by simp
  show ?case
    unfolding sendLoop_retry [OF lt e]
    using Suc.hyps(1) [OF n f Suc.prems(2) Suc.prems(3) sk] lt' ak
    by (simp add: rounds_Cons)
qed

text \<open>Every attempt from \<open>a\<close> up to the limit fails.\<close>

lemma sendLoop_exhausts:
  assumes "\<forall>i. a \<le> i \<and> int i < mx \<longrightarrow> sendMail env i mo = Inl (errs i)"
    and "int a < mx"
  shows "sendLoop env m mo ty mx b a le tr =
     (Inl (Some (errs (nat mx - 1))),
      (updateDeliveryRate (m\<lparr>totalFailed := totalFailed m + 1\<rparr>))
        \<lparr>lastFailed := Some \<lparr>emailType = ty, recipient = mailTo mo,
                              error = Some (errs (nat mx - 1)), timestamp = now env\<rparr>\<rparr>,
      tr @ rounds mo b env a (nat mx - 1) @ [SendMail mo])"
  using assms
proof (induction "nat mx - 1 - a" arbitrary: a le tr)
  case 0
  then have a: "a = nat mx - 1" and n: "\<not> int (Suc a) < mx" by linarith+
  from 0 have e: "sendMail env a mo = Inl (errs a)" by simp
  show ?case
    unfolding sendLoop_retry [OF "0.prems"(2) e]
    using n a by (simp add: sendLoop_exhausted rounds_empty)
next
  case (Suc n)
  then have lt': "int (Suc a) < mx" by linarith
  from Suc have e: "sendMail env a mo = Inl (errs a)" by simp
  from Suc.hyps(2) have n: "n = nat mx - 1 - Suc a" by simp
  have f: "\<forall>i. Suc a \<le> i \<and> int i < mx \<longrightarrow> sendMail env i mo = Inl (errs i)"
    using Suc.prems(1) by simp
  from lt' have ak: "a < nat mx - 1" by linarith
  show ?case
    unfolding sendLoop_retry [OF Suc.prems(2) e]
    using Suc.hyps(1) [OF n f lt'] lt' ak
    by (simp add: rounds_Cons)
qed

lemma sendLoop_trace_extends:
  "\<exists>rest. snd (snd (sendLoop env m mo ty mx b a le tr)) = tr @ rest"
proof (induction "nat (mx - int a)" arbitrary: a le tr)
  case 0
  then have "\<not> int a < mx" by simp
  then show ?case by (simp add: sendLoop_exhausted)
next
  case (Suc n)
  then have lt: "int a < mx" by linarith
  show ?case
  proof (cases "sendMail env a mo")
    case (Inr info)
    with lt show ?thesis by (simp add: sendLoop_sent)
  next
    case (Inl err)
    from Suc.hyps(2) have n: "n = nat (mx - int (Suc a))" by simp
    from Suc.hyps(1) [OF n] obtain rest where
      "snd (snd (sendLoop env m mo ty mx b (Suc a) (Some err)
        (tr @ [SendMail mo] @
          (if int (Suc a) < mx then [SetTimeout (b * 2 ^ a + math_random env (Suc a) * 500)] else [])))) =
       (tr @ [SendMail mo] @
          (if int (Suc a) < mx then [SetTimeout (b * 2 ^ a + math_random env (Suc a) * 500)] else [])) @ rest"
      by blast
    then show ?thesis
      unfolding sendLoop_retry [OF lt Inl] by simp
  qed
qed

text \<open>After failures from \<open>a\<close> up to \<open>k\<close>, below the limit, attempt \<open>k\<close> is made.\<close>

lemma sendLoop_trace_prefix:
  assumes "\<forall>i. a \<le> i \<and> i < k \<longrightarrow> isl (sendMail env i mo)"
    and "int k < mx" and "a \<le> k"
  shows "\<exists>rest. snd (snd (sendLoop env m mo ty mx b a le tr)) =
     tr @ rounds mo b env a k @ SendMail mo # rest"
  using assms
proof (induction "k - a" arbitrary: a le tr)
  case 0
  then have ak: "a = k" and lt: "int a < mx" by simp_all
  show ?case
  proof (cases "sendMail env a mo")
    case (Inr info)
    with lt ak show ?thesis by (simp add: sendLoop_sent rounds_empty)
  next
    case (Inl err)
    from sendLoop_trace_extends [of env m mo ty mx b "Suc a" "Some err"
       "tr @ [SendMail mo] @
          (if int (Suc a) < mx then [SetTimeout (b * 2 ^ a + math_random env (Suc a) * 500)] else [])"]
    show ?thesis
      unfolding sendLoop_retry [OF lt Inl] using ak by (auto simp: rounds_empty)
  qed
next
  case (Suc n)
  then have ak: "a < k" by simp
  with Suc.prems have lt: "int a < mx" and lt': "int (Suc a) < mx" by simp_all
  from ak Suc.prems(1) obtain err where e: "sendMail env a mo = Inl err"
    by (cases "sendMail env a mo") auto
  from Suc.hyps(2) have n: "n = k - Suc a" by simp
  have f: "\<forall>i. Suc a \<le> i \<and> i < k \<longrightarrow> isl (sendMail env i mo)"
    using Suc.prems(1) by simp
  from ak have sk: "Suc a \<le> k" by simp
  from Suc.hyps(1) [OF n f Suc.prems(2) sk, of "Some err"
      "tr @ [SendMail mo, SetTimeout (b * 2 ^ a + math_random env (Suc a) * 500)]"]
  obtain rest where
    "snd (snd (sendLoop env m mo ty mx b (Suc a) (Some err)
        (tr @ [SendMail mo, SetTimeout (b * 2 ^ a + math_random env (Suc a) * 500)]))) =
     (tr @ [SendMail mo, SetTimeout (b * 2 ^ a + math_random env (Suc a) * 500)]) @
        rounds mo b env (Suc a) k @ SendMail mo # rest"
    by blast
  with lt' ak show ?case
    unfolding sendLoop_retry [OF lt e]
    by (simp add: rounds_Cons)
qed

lemma waits_append: "waits (xs @ ys) = waits xs @ waits ys"
  by (induction xs rule: waits.induct) simp_all

lemma waits_rounds:
  "waits (rounds mo b env 0 k) = map (\<lambda>i. b * 2 ^ i + math_random env (Suc i) * 500) [0..<k]"
  by (induction k) (simp_all add: rounds_empty rounds_snoc waits_append)

lemma sum_waits_rounds:
  assumes "\<forall>n. 0 \<le> math_random env n \<and> math_random env n < 1"
  shows "b * (2 ^ k - 1) \<le> sum_list (waits (rounds mo b env 0 k)) \<and>
         sum_list (waits (rounds mo b env 0 k)) \<le> b * (2 ^ k - 1) + 500 * real k"
proof (induction k)
  case 0
  show ?case by (simp add: rounds_empty)
next
  case (Suc k)
  from assms have "0 \<le> math_random env (Suc k)" "math_random env (Suc k) < 1" by simp_all
  with Suc show ?case
    by (simp add: rounds_snoc waits_append algebra_simps)
qed

subsection \<open>Outcomes of \<open>sendWithRetry\<close>\<close>

text \<open>
  Claim C2. When \<open>maxRetries \<ge> 1\<close> and every transport attempt below the limit fails,
  \<open>sendWithRetry\<close> throws the error of the last attempt, adds one to \<open>totalFailed\<close>,
  leaves \<open>totalSent\<close> unchanged, records a \<open>lastFailed\<close> snapshot holding the
  message-type label, the recipient of the message, that last error and the current time,
  and recomputes the delivery rate from the new counters; it has made \<open>maxRetries\<close>
  transport attempts.
\<close>

theorem exhausted_retries_record_failure:
  assumes "1 \<le> maxRetries"
    and "\<forall>i. int i < maxRetries \<longrightarrow> sendMail env i mailOptions = Inl (errs i)"
  shows "case sendWithRetry env m mailOptions ty maxRetries baseDelay of (r, m', tr) \<Rightarrow>
     r = Inl (Some (errs (nat maxRetries - 1))) \<and>
     totalFailed m' = totalFailed m + 1 \<and>
     totalSent m' = totalSent m \<and>
     lastFailed m' = Some \<lparr>emailType = ty, recipient = mailTo mailOptions,
                            error = Some (errs (nat maxRetries - 1)), timestamp = now env\<rparr> \<and>
     deliveryRate m' = real (totalSent m') / real (totalSent m' + totalFailed m') * 100 \<and>
     length (filter (\<lambda>e. e = SendMail mailOptions) tr) = nat maxRetries"
proof -
  from assms(1) have lt: "int 0 < maxRetries" by simp
  from assms(2) have f: "\<forall>i. 0 \<le> i \<and> int i < maxRetries \<longrightarrow> sendMail env i mailOptions = Inl (errs i)"
    by simp
  have n: "length (filter (\<lambda>e. e = SendMail mailOptions) (rounds mailOptions baseDelay env 0 k)) = k" for k
    by (induction k) (simp_all add: rounds_empty rounds_snoc)
  from assms(1) have "Suc (nat maxRetries - 1) = nat maxRetries" by linarith
  then show ?thesis
    unfolding sendWithRetry_def sendLoop_exhausts [OF f lt]
    by (simp add: updateDeliveryRate_def Let_def n)
qed

theorem exhausted_retries_witness:
  "(1::int) \<le> 3 \<and>
   sendMail envDown 0 mail0 = Inl (Error ''ECONNREFUSED'') \<and>
   sendMail envDown 1 mail0 = Inl (Error ''ECONNREFUSED'') \<and>
   sendMail envDown 2 mail0 = Inl (Error ''ETIMEDOUT'') \<and>
   (case sendWithRetry envDown emailMetrics mail0 ''donation-receipt'' 3 1000 of (r, m', tr) \<Rightarrow>
      r = Inl (Some (Error ''ETIMEDOUT'')) \<and>
      totalFailed m' = 1 \<and>
      totalSent m' = 0 \<and>
      lastFailed m' = Some \<lparr>emailType = ''donation-receipt'', recipient = ''donor@example.org'',
                             error = Some (Error ''ETIMEDOUT''), timestamp = 1700000000000\<rparr> \<and>
      deliveryRate m' = 0 \<and>
      length (filter (\<lambda>e. e = SendMail mail0) tr) = 3)"
proof -
  have h1: "(1::int) \<le> 3" by simp
  have h2: "\<forall>i. int i < 3 \<longrightarrow>
      sendMail envDown i mail0 = Inl ((\<lambda>n. Error (if n = 2 then ''ETIMEDOUT'' else ''ECONNREFUSED'')) i)"
    by (simp add: envDown_def)
  from exhausted_retries_record_failure [OF h1 h2, of emailMetrics "''donation-receipt''" 1000]
  show ?thesis
    by (simp add: envDown_def emailMetrics_def mail0_def split: prod.splits)
qed

text \<open>
  Claim C3. When the first \<open>k - 1\<close> transport attempts fail and attempt \<open>k\<close> succeeds,
  with \<open>1 \<le> k \<le> maxRetries\<close>, \<open>sendWithRetry\<close> returns success with
  \<open>attempts = k\<close>, adds one to \<open>totalSent\<close>, leaves \<open>totalFailed\<close> and the
  \<open>lastFailed\<close> snapshot unchanged, and recomputes the delivery rate.
\<close>

theorem success_after_failures:
  assumes "1 \<le> k" and "int k \<le> maxRetries"
    and "\<forall>i. i < k - 1 \<longrightarrow> isl (sendMail env i mailOptions)"
    and "sendMail env (k - 1) mailOptions = Inr info"
  shows "case sendWithRetry env m mailOptions ty maxRetries baseDelay of (r, m', tr) \<Rightarrow>
     r = Inr \<lparr>success = True, messageId = info_messageId info, attempts = k\<rparr> \<and>
     totalSent m' = totalSent m + 1 \<and>
     totalFailed m' = totalFailed m \<and>
     lastFailed m' = lastFailed m \<and>
     deliveryRate m' = real (totalSent m') / real (totalSent m' + totalFailed m') * 100 \<and>
     length (filter (\<lambda>e. e = SendMail mailOptions) tr) = k"
proof -
  from assms(1,2) have lt: "int (k - 1) < maxRetries" by linarith
  from assms(3) have f: "\<forall>i. 0 \<le> i \<and> i < k - 1 \<longrightarrow> isl (sendMail env i mailOptions)"
    by simp
  have n: "length (filter (\<lambda>e. e = SendMail mailOptions) (rounds mailOptions baseDelay env 0 j)) = j" for j
    by (induction j) (simp_all add: rounds_empty rounds_snoc)
  from assms(1) have "Suc (k - 1) = k" by simp
  then show ?thesis
    unfolding sendWithRetry_def sendLoop_succeeds_at [OF f assms(4) lt le0]
    by (simp add: updateDeliveryRate_def Let_def n)
qed

theorem success_after_failures_witness:
  "(1::nat) \<le> 3 \<and> int 3 \<le> 3 \<and>
   isl (sendMail envThird 0 mail0) \<and> isl (sendMail envThird 1 mail0) \<and>
   sendMail envThird 2 mail0 = Inr \<lparr>info_messageId = ''<1@smtp>''\<rparr> \<and>
   (case sendWithRetry envThird emailMetrics mail0 ''donation-receipt'' 3 1000 of (r, m', tr) \<Rightarrow>
      r = Inr \<lparr>success = True, messageId = ''<1@smtp>'', attempts = 3\<rparr> \<and>
      totalSent m' = 1 \<and>
      totalFailed m' = 0 \<and>
      lastFailed m' = None \<and>
      deliveryRate m' = 100 \<and>
      length (filter (\<lambda>e. e = SendMail mail0) tr) = 3)"
proof -
  have h1: "(1::nat) \<le> 3" and h2: "int 3 \<le> 3" by simp_all
  have h3: "\<forall>i. i < 3 - 1 \<longrightarrow> isl (sendMail envThird i mail0)"
    by (simp add: envThird_def)
  have h4: "sendMail envThird (3 - 1) mail0 = Inr \<lparr>info_messageId = ''<1@smtp>''\<rparr>"
    by (simp add: envThird_def)
  from success_after_failures [OF h1 h2 h3 h4, of emailMetrics "''donation-receipt''" 1000]
  show ?thesis
    by (simp add: envThird_def emailMetrics_def split: prod.splits)
qed

text \<open>
  Claim C9. With \<open>maxRetries = 0\<close> the transport is never called (no effect at all is
  produced) and the call reports an exhausted failure at once: it throws (the thrown
  \<open>lastError\<close> is still \<open>null\<close>), \<open>totalFailed\<close> grows by one and a
  \<open>lastFailed\<close> snapshot is recorded.
\<close>

theorem zero_retries_never_attempts:
  "case sendWithRetry env m mailOptions ty 0 baseDelay of (r, m', tr) \<Rightarrow>
     tr = [] \<and>
     r = Inl None \<and>
     totalFailed m' = totalFailed m + 1 \<and>
     totalSent m' = totalSent m \<and>
     lastFailed m' = Some \<lparr>emailType = ty, recipient = mailTo mailOptions,
                            error = None, timestamp = now env\<rparr> \<and>
     deliveryRate m' = real (totalSent m') / real (totalSent m' + totalFailed m') * 100"
  by (simp add: sendWithRetry_def sendLoop_exhausted updateDeliveryRate_def Let_def)

text \<open>
  Claim C8. When \<open>Math.random()\<close> yields values in \<open>[0, 1)\<close> and attempts 1 to \<open>a\<close>
  fail, with \<open>1 \<le> a < maxRetries\<close>, then attempt \<open>a\<close> is followed by a wait of
  \<open>baseDelay * 2^(a-1) + j\<close> with \<open>0 \<le> j < 500\<close> and then by attempt \<open>a + 1\<close>;
  before it come exactly \<open>a - 1\<close> attempts and \<open>a - 1\<close> waits, and the total of the
  waits before attempt \<open>a + 1\<close> lies between \<open>baseDelay * (2^a - 1)\<close> and
  \<open>baseDelay * (2^a - 1) + 500 * a\<close>.
\<close>

theorem backoff_wait:
  assumes "\<forall>n. 0 \<le> math_random env n \<and> math_random env n < 1"
    and "1 \<le> a" and "int a < maxRetries"
    and "\<forall>i. i < a \<longrightarrow> isl (sendMail env i mailOptions)"
  shows "\<exists>pre j rest.
     snd (snd (sendWithRetry env m mailOptions ty maxRetries baseDelay)) =
       pre @ [SendMail mailOptions, SetTimeout (baseDelay * 2 ^ (a - 1) + j), SendMail mailOptions] @ rest \<and>
     0 \<le> j \<and> j < 500 \<and>
     length (filter (\<lambda>e. e = SendMail mailOptions) pre) = a - 1 \<and>
     length (waits pre) = a - 1 \<and>
     baseDelay * (2 ^ a - 1) \<le> sum_list (waits pre) + (baseDelay * 2 ^ (a - 1) + j) \<and>
     sum_list (waits pre) + (baseDelay * 2 ^ (a - 1) + j) \<le> baseDelay * (2 ^ a - 1) + 500 * real a"
proof -
  let ?pre = "rounds mailOptions baseDelay env 0 (a - 1)"
  let ?j = "math_random env a * 500"
  from assms(2) have sa: "Suc (a - 1) = a" by simp
  have f: "\<forall>i. 0 \<le> i \<and> i < a \<longrightarrow> isl (sendMail env i mailOptions)"
    using assms(4) by simp
  from sendLoop_trace_prefix [OF f assms(3) le0, of m ty baseDelay None "[]"]
  obtain rest where tr: "snd (snd (sendWithRetry env m mailOptions ty maxRetries baseDelay)) =
      rounds mailOptions baseDelay env 0 a @ SendMail mailOptions # rest"
    by (auto simp: sendWithRetry_def)
  have r: "rounds mailOptions baseDelay env 0 a =
      ?pre @ [SendMail mailOptions, SetTimeout (baseDelay * 2 ^ (a - 1) + ?j)]"
    using rounds_snoc [of 0 "a - 1" mailOptions baseDelay env] sa by simp
  have n: "length (filter (\<lambda>e. e = SendMail mailOptions) (rounds mailOptions baseDelay env 0 k)) = k" for k
    by (induction k) (simp_all add: rounds_empty rounds_snoc)
  have w: "sum_list (waits (rounds mailOptions baseDelay env 0 a)) =
      sum_list (waits ?pre) + (baseDelay * 2 ^ (a - 1) + ?j)"
    unfolding r by (simp add: waits_append)
  from assms(1) have j: "0 \<le> ?j" "?j < 500" by simp_all
  have "snd (snd (sendWithRetry env m mailOptions ty maxRetries baseDelay)) =
       ?pre @ [SendMail mailOptions, SetTimeout (baseDelay * 2 ^ (a - 1) + ?j), SendMail mailOptions] @ rest"
    unfolding tr r by simp
  moreover have "length (waits ?pre) = a - 1" by (simp add: waits_rounds)
  moreover note j n [of "a - 1"] sum_waits_rounds [OF assms(1), of baseDelay a mailOptions, unfolded w]
  ultimately show ?thesis by blast
qed

theorem backoff_wait_witness:
  "(\<forall>n. 0 \<le> math_random envThird n \<and> math_random envThird n < 1) \<and>
   (1::nat) \<le> 2 \<and> int 2 < 3 \<and>
   isl (sendMail envThird 0 mail0) \<and> isl (sendMail envThird 1 mail0) \<and>
   (\<exists>pre j rest.
     snd (snd (sendWithRetry envThird emailMetrics mail0 ''donation-receipt'' 3 1000)) =
       pre @ [SendMail mail0, SetTimeout (2000 + j), SendMail mail0] @ rest \<and>
     0 \<le> j \<and> j < 500 \<and>
     length (filter (\<lambda>e. e = SendMail mail0) pre) = 1 \<and>
     length (waits pre) = 1 \<and>
     3000 \<le> sum_list (waits pre) + (2000 + j) \<and>
     sum_list (waits pre) + (2000 + j) \<le> 4000)"
proof -
  have h1: "\<forall>n. 0 \<le> math_random envThird n \<and> math_random envThird n < 1"
    by (simp add: envThird_def)
  have h2: "(1::nat) \<le> 2" and h3: "int 2 < 3" by simp_all
  have h4: "\<forall>i. i < 2 \<longrightarrow> isl (sendMail envThird i mail0)"
    by (simp add: envThird_def)
  from backoff_wait [OF h1 h2 h3 h4, of emailMetrics "''donation-receipt''" 1000]
  have "\<exists>pre j rest.
     snd (snd (sendWithRetry envThird emailMetrics mail0 ''donation-receipt'' 3 1000)) =
       pre @ [SendMail mail0, SetTimeout (2000 + j), SendMail mail0] @ rest \<and>
     0 \<le> j \<and> j < 500 \<and>
     length (filter (\<lambda>e. e = SendMail mail0) pre) = 1 \<and>
     length (waits pre) = 1 \<and>
     3000 \<le> sum_list (waits pre) + (2000 + j) \<and>
     sum_list (waits pre) + (2000 + j) \<le> 4000"
    by simp
  with h1 h2 h3 show ?thesis by (simp add: envThird_def)
qed

section \<open>Properties of the webhook router\<close>

subsection \<open>Results of composed computations\<close>

lemma fst_ret: "fst (ret x) = Inr x"
  by (simp add: ret_def)

lemma fst_throw: "fst (throw e) = Inl e"
  by (simp add: throw_def)

lemma fst_request: "fst (request c a) = a"
  by (simp add: request_def)

lemma fst_andThen:
  "fst (andThen m f) = (case fst m of Inl e \<Rightarrow> Inl e | Inr x \<Rightarrow> fst (f x))"
  by (cases m) (auto simp: andThen_def split: sum.splits prod.splits)

lemma fst_tryCatch:
  "fst (tryCatch m h) = (case fst m of Inl e \<Rightarrow> fst (h e) | Inr x \<Rightarrow> Inr x)"
  by (cases m) (auto simp: tryCatch_def split: sum.splits prod.splits)

lemma fst_promiseAll:
  "fst (promiseAll p q) =
     (case fst p of Inl e \<Rightarrow> Inl e
      | Inr x \<Rightarrow> (case fst q of Inl e \<Rightarrow> Inl e | Inr y \<Rightarrow> Inr (x, y)))"
  by (cases p; cases q) (simp add: promiseAll_def split: sum.splits)

lemma fst_entering: "fst (entering h m) = fst m"
  by (cases m) (simp add: entering_def)

text \<open>A \<open>try\<close> block whose \<open>catch\<close> only logs never throws.\<close>

lemma absorbed: "fst (andThen (tryCatch m (\<lambda>err. ret ())) (\<lambda>finished. ret r)) = Inr r"
  by (cases "fst m") (simp_all add: fst_andThen fst_tryCatch fst_ret)

lemma snd_ret: "snd (ret x) = []"
  by (simp add: ret_def)

lemma snd_throw: "snd (throw e) = []"
  by (simp add: throw_def)

lemma snd_request: "snd (request c a) = [c]"
  by (simp add: request_def)

lemma snd_andThen:
  "snd (andThen m f) = (case fst m of Inl e \<Rightarrow> snd m | Inr x \<Rightarrow> snd m @ snd (f x))"
  by (cases m) (auto simp: andThen_def split: sum.splits prod.splits)

lemma snd_tryCatch:
  "snd (tryCatch m h) = (case fst m of Inl e \<Rightarrow> snd m @ snd (h e) | Inr x \<Rightarrow> snd m)"
  by (cases m) (auto simp: tryCatch_def split: sum.splits prod.splits)

lemma snd_promiseAll: "snd (promiseAll p q) = snd p @ snd q"
  by (cases p; cases q) (simp add: promiseAll_def)

lemma snd_entering: "snd (entering h m) = Handler h # snd m"
  by (cases m) (simp add: entering_def)

lemmas io_simps = fst_ret fst_throw fst_request fst_andThen fst_tryCatch fst_promiseAll fst_entering
  snd_ret snd_throw snd_request snd_andThen snd_tryCatch snd_promiseAll snd_entering

lemma POST_authenticated:
  assumes "stripe_signature req = Some sig" and "sig \<noteq> []"
    and "constructEvent env (req_body req) sig = Inr event"
  shows "POST env req =
     (case
        (if event_type event = ''payment_intent.succeeded''
         then entering ''handlePaymentIntentSucceeded'' (handlePaymentIntentSucceeded env event)
         else if event_type event = ''invoice.payment_succeeded''
         then entering ''handleInvoicePaymentSucceeded'' (handleInvoicePaymentSucceeded env event)
         else if event_type event = ''customer.subscription.created''
         then entering ''handleSubscriptionCreated'' (handleSubscriptionCreated env event)
         else if event_type event = ''customer.subscription.updated''
         then entering ''handleSubscriptionUpdated'' (handleSubscriptionUpdated env event)
         else if event_type event = ''customer.subscription.deleted''
         then entering ''handleSubscriptionDeleted'' (handleSubscriptionDeleted env event)
         else if event_type event = ''invoice.payment_failed''
         then entering ''handlePaymentFailed'' (handlePaymentFailed env event)
         else if event_type event = ''invoice.payment_action_required''
         then entering ''handlePaymentActionRequired'' (handlePaymentActionRequired env event)
         else if event_type event = ''customer.subscription.past_due''
         then entering ''handleSubscriptionPastDue'' (handleSubscriptionPastDue env event)
         else if event_type event = ''customer.subscription.unpaid''
         then entering ''handleSubscriptionUnpaid'' (handleSubscriptionUnpaid env event)
         else ret received) of
        (Inr response, tr) \<Rightarrow> (response, tr)
      | (Inl err, tr) \<Rightarrow> (rejected 500 ''Failed to process webhook'', tr))"
  using assms by (simp add: POST_def)

lemma respond:
  "(case m of (Inr response, tr) \<Rightarrow> (response, tr)
            | (Inl err, tr) \<Rightarrow> (rejected 500 ''Failed to process webhook'', tr)) =
   ((case fst m of Inr response \<Rightarrow> response | Inl err \<Rightarrow> rejected 500 ''Failed to process webhook''), snd m)"
  by (cases m) (simp split: sum.splits)

text \<open>Running a composed computation forward, without splitting on results.\<close>

lemma run_andThen:
  "fst (andThen m f) = (if isl (fst m) then Inl (projl (fst m)) else fst (f (projr (fst m))))"
  "snd (andThen m f) = snd m @ (if isl (fst m) then [] else snd (f (projr (fst m))))"
  by (cases m; cases "fst m"; simp add: andThen_def split: prod.splits)+

lemma run_tryCatch:
  "fst (tryCatch m h) = (if isl (fst m) then fst (h (projl (fst m))) else fst m)"
  "snd (tryCatch m h) = snd m @ (if isl (fst m) then snd (h (projl (fst m))) else [])"
  by (cases m; cases "fst m"; simp add: tryCatch_def split: prod.splits)+

lemma run_promiseAll:
  "fst (promiseAll p q) =
     (if isl (fst p) then Inl (projl (fst p))
      else if isl (fst q) then Inl (projl (fst q))
      else Inr (projr (fst p), projr (fst q)))"
  by (cases p; cases q; cases "fst p"; cases "fst q"; simp add: promiseAll_def)

lemmas run = run_andThen run_tryCatch run_promiseAll snd_promiseAll fst_ret snd_ret fst_throw snd_throw
  fst_request snd_request

subsection \<open>Responses of the handlers\<close>

lemma acknowledged_ret:
  "acknowledged (ret received)" "acknowledged (ret receivedMissingEmail)"
  by (simp_all add: acknowledged_def fst_ret received_def receivedMissingEmail_def)

lemma acknowledged_absorbed:
  "acknowledged (andThen (tryCatch m (\<lambda>err. ret ())) (\<lambda>finished. ret received))"
  by (simp add: acknowledged_def absorbed received_def)

lemma acknowledged_andThen:
  "fst m = Inr x \<Longrightarrow> acknowledged (andThen m f) = acknowledged (f x)"
  by (simp add: acknowledged_def fst_andThen)

lemma logging_handlers:
  "acknowledged (handleSubscriptionCreated env event)"
  "acknowledged (handleSubscriptionUpdated env event)"
  "acknowledged (handleSubscriptionDeleted env event)"
  "acknowledged (handlePaymentActionRequired env event)"
  "acknowledged (handleSubscriptionPastDue env event)"
  "acknowledged (handleSubscriptionUnpaid env event)"
  by (simp_all add: handleSubscriptionCreated_def handleSubscriptionUpdated_def
      handleSubscriptionDeleted_def handlePaymentActionRequired_def handleSubscriptionPastDue_def
      handleSubscriptionUnpaid_def Let_def acknowledged_absorbed acknowledged_ret)

lemma tryCatch_default: "\<exists>x. fst (tryCatch m (\<lambda>err. ret d)) = Inr x"
  by (cases "fst m") (simp_all add: fst_tryCatch fst_ret)

lemma handlePaymentFailed_acknowledged: "acknowledged (handlePaymentFailed env event)"
proof -
  let ?lookup = "tryCatch
      (andThen (request (CustomersRetrieve (customer (data_object event)))
                  (customers_retrieve env (customer (data_object event))))
         (\<lambda>customer'.
            case customer' of
              LiveCustomer c \<Rightarrow> ret (cust_email c, orElse (cust_name c) ''Donor'')
            | DeletedCustomer \<Rightarrow> ret (None, ''Donor'')))
      (\<lambda>err. ret (None, ''Donor''))"
  from tryCatch_default [of _ "(None, ''Donor'')"] obtain x where x: "fst ?lookup = Inr x"
    by blast
  show ?thesis
    unfolding handlePaymentFailed_def Let_def acknowledged_andThen [OF x]
    by (cases x) (simp add: acknowledged_absorbed acknowledged_ret)
qed

lemma acknowledged_andThen_case:
  "acknowledged (andThen m f) = (case fst m of Inl e \<Rightarrow> False | Inr x \<Rightarrow> acknowledged (f x))"
  by (simp add: acknowledged_def fst_andThen split: sum.splits)

lemma acknowledged_tail:
  "acknowledged (if c then ret receivedMissingEmail
                 else andThen (tryCatch m (\<lambda>err. ret ())) (\<lambda>finished. ret received))"
  by (simp add: acknowledged_absorbed acknowledged_ret)

lemma handlePaymentIntentSucceeded_acknowledged:
  assumes "\<not> (\<not> truthy (metadata (data_object event) ''subscriptionId'') \<and>
              \<not> truthy (invoice (data_object event)) \<and>
              truthy (latest_charge (data_object event)) \<and>
              isl (charges_retrieve env (orElse (latest_charge (data_object event)) [])))"
  shows "acknowledged (handlePaymentIntentSucceeded env event)"
proof (cases "truthy (metadata (data_object event) ''subscriptionId'') \<or> truthy (invoice (data_object event))")
  case True
  then show ?thesis
    by (simp add: handlePaymentIntentSucceeded_def Let_def acknowledged_ret)
next
  case False
  show ?thesis
  proof (cases "latest_charge (data_object event)")
    case None
    with False show ?thesis
      by (simp add: handlePaymentIntentSucceeded_def Let_def acknowledged_andThen_case fst_ret
          acknowledged_tail)
  next
    case (Some chargeId)
    show ?thesis
    proof (cases "chargeId = []")
      case True
      with False Some show ?thesis
        by (simp add: handlePaymentIntentSucceeded_def Let_def acknowledged_andThen_case fst_ret
            acknowledged_tail)
    next
      case ne: False
      with assms False Some obtain c where c: "charges_retrieve env chargeId = Inr c"
        by (cases "charges_retrieve env chargeId") (auto simp: truthy_def orElse_def)
      with False Some ne show ?thesis
        by (simp add: handlePaymentIntentSucceeded_def Let_def acknowledged_andThen_case fst_ret
            fst_andThen fst_request acknowledged_tail)
    qed
  qed
qed

lemma handlePaymentIntentSucceeded_throws:
  assumes "\<not> truthy (metadata (data_object event) ''subscriptionId'')"
    and "\<not> truthy (invoice (data_object event))"
    and "truthy (latest_charge (data_object event))"
    and "isl (charges_retrieve env (orElse (latest_charge (data_object event)) []))"
  shows "isl (fst (handlePaymentIntentSucceeded env event))"
proof -
  from assms(3) obtain chargeId where c: "latest_charge (data_object event) = Some chargeId" "chargeId \<noteq> []"
    by (auto simp: truthy_def split: option.splits)
  with assms(4) obtain e where e: "charges_retrieve env chargeId = Inl e"
    by (cases "charges_retrieve env chargeId") (auto simp: orElse_def)
  from assms(1,2) c e show ?thesis
    by (simp add: handlePaymentIntentSucceeded_def Let_def fst_andThen fst_request)
qed

lemma tryCatch_never_throws: "(fst (tryCatch m (\<lambda>err. ret d)) = Inl e) = False"
  by (cases "fst m") (simp_all add: fst_tryCatch fst_ret)

lemma payment_method_lookup_absorbed:
  "(fst (case p of None \<Rightarrow> ret d
         | Some pid \<Rightarrow> if pid = [] then ret d else tryCatch (m pid) (\<lambda>err. ret d)) = Inl e) = False"
  by (cases p) (auto simp: fst_ret fst_tryCatch split: sum.splits)

lemma handleInvoicePaymentSucceeded_acknowledged:
  assumes "\<not> (truthy (subscription (data_object event)) \<and>
              (isl (subscriptions_retrieve env (orElse (subscription (data_object event)) [])) \<or>
               isl (customers_retrieve env (customer (data_object event)))))"
  shows "acknowledged (handleInvoicePaymentSucceeded env event)"
proof (cases "subscription (data_object event)")
  case None
  then show ?thesis
    by (simp add: handleInvoicePaymentSucceeded_def Let_def acknowledged_ret)
next
  case (Some subscriptionId)
  show ?thesis
  proof (cases "subscriptionId = []")
    case True
    with Some show ?thesis
      by (simp add: handleInvoicePaymentSucceeded_def Let_def acknowledged_ret)
  next
    case False
    with assms Some obtain s c where
      s: "subscriptions_retrieve env subscriptionId = Inr s" and
      c: "customers_retrieve env (customer (data_object event)) = Inr c"
      by (cases "subscriptions_retrieve env subscriptionId";
          cases "customers_retrieve env (customer (data_object event))")
         (auto simp: truthy_def orElse_def)
    show ?thesis
    proof (cases c)
      case (LiveCustomer live)
      with Some False s c show ?thesis
        by (simp add: handleInvoicePaymentSucceeded_def Let_def acknowledged_andThen_case
            fst_promiseAll fst_request payment_method_lookup_absorbed acknowledged_absorbed
            tryCatch_never_throws acknowledged_ret split: sum.splits)
    next
      case DeletedCustomer
      with Some False s c show ?thesis
        by (simp add: handleInvoicePaymentSucceeded_def Let_def acknowledged_andThen_case
            fst_promiseAll fst_request payment_method_lookup_absorbed acknowledged_absorbed
            tryCatch_never_throws acknowledged_ret split: sum.splits)
    qed
  qed
qed

lemma handleInvoicePaymentSucceeded_throws:
  assumes "truthy (subscription (data_object event))"
    and "isl (subscriptions_retrieve env (orElse (subscription (data_object event)) [])) \<or>
         isl (customers_retrieve env (customer (data_object event)))"
  shows "isl (fst (handleInvoicePaymentSucceeded env event))"
proof -
  from assms(1) obtain subscriptionId where
    s: "subscription (data_object event) = Some subscriptionId" "subscriptionId \<noteq> []"
    by (auto simp: truthy_def split: option.splits)
  with assms(2) have "isl (subscriptions_retrieve env subscriptionId) \<or>
      isl (customers_retrieve env (customer (data_object event)))"
    by (simp add: orElse_def)
  with s show ?thesis
    by (auto simp: handleInvoicePaymentSucceeded_def Let_def fst_andThen fst_promiseAll fst_request
        isl_def split: sum.splits)
qed

lemma acknowledged_response:
  "acknowledged m \<Longrightarrow>
     status (case fst m of Inr response \<Rightarrow> response | Inl err \<Rightarrow> rej) = 200 \<and>
     body_received (case fst m of Inr response \<Rightarrow> response | Inl err \<Rightarrow> rej)"
  by (cases "fst m") (simp_all add: acknowledged_def)

lemma thrown_response:
  "isl (fst m) \<Longrightarrow> (case fst m of Inr response \<Rightarrow> response | Inl err \<Rightarrow> rej) = rej"
  by (cases "fst m") simp_all

subsection \<open>Writes of the invoice handler\<close>








subsection \<open>Signature check and dispatch\<close>

text \<open>An authenticated event of a handled type enters a handler.\<close>

lemma handled_type_enters_handler:
  assumes "stripe_signature req = Some sig" and "sig \<noteq> []"
    and "constructEvent env (req_body req) sig = Inr event"
    and "event_type event \<in> set handledTypes"
  shows "\<exists>handler calls. snd (POST env req) = Handler handler # calls"
  unfolding POST_authenticated [OF assms(1-3)] respond using assms(4)
  by (auto simp: handledTypes_def snd_entering)

text \<open>
  Claim C4. A request whose signature header is missing or empty, or whose signature
  the verification rejects, is answered with status 400 and no \<open>received\<close>, and no
  call at all has been made: no handler is entered, and there is no storage call, no
  lookup at the payment processor and no mail dispatch.
\<close>

theorem bad_signature_rejected_before_handlers:
  assumes "stripe_signature req = None \<or> stripe_signature req = Some [] \<or>
     (\<exists>sig e. stripe_signature req = Some sig \<and> constructEvent env (req_body req) sig = Inl e)"
  shows "status (fst (POST env req)) = 400 \<and> \<not> body_received (fst (POST env req)) \<and>
     snd (POST env req) = []"
  using assms by (auto simp: POST_def rejected_def Let_def split: option.splits sum.splits)

theorem bad_signature_witness:
  "stripe_signature \<lparr>req_body = ''payment_intent.succeeded'', stripe_signature = None\<rparr> = None \<and>
   status (fst (POST (services skippedIntent)
      \<lparr>req_body = ''payment_intent.succeeded'', stripe_signature = None\<rparr>)) = 400 \<and>
   snd (POST (services skippedIntent)
      \<lparr>req_body = ''payment_intent.succeeded'', stripe_signature = None\<rparr>) = [] \<and>
   isl (constructEvent (services skippedIntent) ''payment_intent.succeeded'' ''forged'') \<and>
   status (fst (POST (services skippedIntent)
      \<lparr>req_body = ''payment_intent.succeeded'', stripe_signature = Some ''forged''\<rparr>)) = 400 \<and>
   snd (POST (services skippedIntent)
      \<lparr>req_body = ''payment_intent.succeeded'', stripe_signature = Some ''forged''\<rparr>) = []"
proof -
  have a: "stripe_signature \<lparr>req_body = ''payment_intent.succeeded'', stripe_signature = None\<rparr> = None"
    by simp
  have b: "constructEvent (services skippedIntent)
      (req_body \<lparr>req_body = ''payment_intent.succeeded'', stripe_signature = Some ''forged''\<rparr>) ''forged'' =
      Inl (Error ''No signatures found matching the expected signature'')"
    by (simp add: services_def)
  from bad_signature_rejected_before_handlers [of "\<lparr>req_body = ''payment_intent.succeeded'', stripe_signature = None\<rparr>"
      "services skippedIntent"]
    bad_signature_rejected_before_handlers [of "\<lparr>req_body = ''payment_intent.succeeded'', stripe_signature = Some ''forged''\<rparr>"
      "services skippedIntent"] b
  show ?thesis by simp
qed

text \<open>
  Claim C5. An authenticated event whose type is none of the handled types is answered
  with status 200 and \<open>received: true\<close>, and no call at all has been made: no
  handler is entered, nothing is stored, looked up or mailed.
\<close>

theorem unknown_type_acknowledged:
  assumes "stripe_signature req = Some sig" and "sig \<noteq> []"
    and "constructEvent env (req_body req) sig = Inr event"
    and "event_type event \<notin> set handledTypes"
  shows "POST env req = (\<lparr>status = 200, body_received = True, body_error = None\<rparr>, [])"
  using assms by (simp add: POST_def handledTypes_def ret_def received_def)

theorem unknown_type_witness:
  "stripe_signature (request0 ''charge.refunded'') = Some ''good'' \<and> ''good'' \<noteq> [] \<and>
   constructEvent (services paidInvoice) (req_body (request0 ''charge.refunded'')) ''good'' =
     Inr \<lparr>event_type = ''charge.refunded'', data_object = paidInvoice\<rparr> \<and>
   ''charge.refunded'' \<notin> set handledTypes \<and>
   POST (services paidInvoice) (request0 ''charge.refunded'') =
     (\<lparr>status = 200, body_received = True, body_error = None\<rparr>, [])"
proof -
  have a: "stripe_signature (request0 ''charge.refunded'') = Some ''good''" and b: "''good'' \<noteq> []"
    by (simp_all add: request0_def)
  have c: "constructEvent (services paidInvoice) (req_body (request0 ''charge.refunded'')) ''good'' =
     Inr \<lparr>event_type = ''charge.refunded'', data_object = paidInvoice\<rparr>"
    by (simp add: services_def request0_def)
  have d: "event_type \<lparr>event_type = ''charge.refunded'', data_object = paidInvoice\<rparr> \<notin> set handledTypes"
    by (simp add: handledTypes_def)
  from unknown_type_acknowledged [OF a b c d] a b c d show ?thesis by simp
qed

subsection \<open>Subscription payments are left to the invoice event\<close>

text \<open>
  Claim C10. An authenticated \<open>payment_intent.succeeded\<close> event whose metadata
  carries a \<open>subscriptionId\<close>, or whose invoice reference is not null, is
  acknowledged with status 200 after entering its handler, and nothing else happens: no
  donor or donation write, no lookup and no email. A reference that a payload signed by
  Stripe carries is never the empty string (Stripe drops a metadata key set to the empty
  string, and \<open>invoice\<close> is null or an id), so carrying it is what the handler's
  guard tests: that it is truthy.
\<close>

theorem subscription_intent_deferred:
  assumes "stripe_signature req = Some sig" and "sig \<noteq> []"
    and "constructEvent env (req_body req) sig = Inr event"
    and "event_type event = ''payment_intent.succeeded''"
    and "truthy (metadata (data_object event) ''subscriptionId'') \<or> truthy (invoice (data_object event))"
  shows "POST env req = (\<lparr>status = 200, body_received = True, body_error = None\<rparr>,
                         [Handler ''handlePaymentIntentSucceeded''])"
  unfolding POST_authenticated [OF assms(1-3)] respond
  using assms(4,5)
  by (auto simp: handlePaymentIntentSucceeded_def Let_def io_simps received_def)

theorem subscription_intent_witness:
  "stripe_signature (request0 ''payment_intent.succeeded'') = Some ''good'' \<and> ''good'' \<noteq> [] \<and>
   constructEvent (services skippedIntent) (req_body (request0 ''payment_intent.succeeded'')) ''good'' =
     Inr \<lparr>event_type = ''payment_intent.succeeded'', data_object = skippedIntent\<rparr> \<and>
   truthy (metadata skippedIntent ''subscriptionId'') \<and>
   POST (services skippedIntent) (request0 ''payment_intent.succeeded'') =
     (\<lparr>status = 200, body_received = True, body_error = None\<rparr>, [Handler ''handlePaymentIntentSucceeded''])"
proof -
  have a: "stripe_signature (request0 ''payment_intent.succeeded'') = Some ''good''" and b: "''good'' \<noteq> []"
    by (simp_all add: request0_def)
  have c: "constructEvent (services skippedIntent) (req_body (request0 ''payment_intent.succeeded'')) ''good'' =
     Inr \<lparr>event_type = ''payment_intent.succeeded'', data_object = skippedIntent\<rparr>"
    by (simp add: services_def request0_def)
  have d: "event_type \<lparr>event_type = ''payment_intent.succeeded'', data_object = skippedIntent\<rparr> =
     ''payment_intent.succeeded''"
    by simp
  have e: "truthy (metadata skippedIntent ''subscriptionId'')"
    by (simp add: skippedIntent_def truthy_def)
  then have e': "truthy (metadata (data_object \<lparr>event_type = ''payment_intent.succeeded'', data_object = skippedIntent\<rparr>) ''subscriptionId'') \<or>
     truthy (invoice (data_object \<lparr>event_type = ''payment_intent.succeeded'', data_object = skippedIntent\<rparr>))"
    by simp
  from subscription_intent_deferred [OF a b c d e'] a b c e show ?thesis by simp
qed

subsection \<open>Recording a recurring donation\<close>




subsection \<open>Which failures reach the caller\<close>

text \<open>
  Claim C7, amended. For every authenticated event, whatever the storage, the mail
  functions and the lookups wrapped in a handler's own \<open>try\<close> block do (answer,
  throw or return nothing), the response has status 200 and \<open>received: true\<close>,
  unless a lookup made outside such a block throws (the charge of a one-time payment
  intent, the subscription or the customer of a subscription invoice): then, and only
  then, the exception reaches the top-level \<open>catch\<close> and the response is the
  status 500 rejection.
\<close>

theorem only_propagating_lookups_reject:
  assumes "stripe_signature req = Some sig" and "sig \<noteq> []"
    and "constructEvent env (req_body req) sig = Inr event"
  shows "(propagatingLookupFails env event \<longrightarrow>
            fst (POST env req) = rejected 500 ''Failed to process webhook'') \<and>
         (\<not> propagatingLookupFails env event \<longrightarrow>
            status (fst (POST env req)) = 200 \<and> body_received (fst (POST env req)))"
proof -
  consider (intent) "event_type event = ''payment_intent.succeeded''"
    | (invoice) "event_type event = ''invoice.payment_succeeded''"
    | (other) "event_type event \<noteq> ''payment_intent.succeeded''"
        "event_type event \<noteq> ''invoice.payment_succeeded''"
    by blast
  then show ?thesis
  proof cases
    case intent
    then have p: "fst (POST env req) =
        (case fst (handlePaymentIntentSucceeded env event) of
           Inr response \<Rightarrow> response | Inl err \<Rightarrow> rejected 500 ''Failed to process webhook'')"
      unfolding POST_authenticated [OF assms] respond by (simp add: fst_entering)
    from intent have f: "propagatingLookupFails env event \<longleftrightarrow>
        \<not> truthy (metadata (data_object event) ''subscriptionId'') \<and>
        \<not> truthy (invoice (data_object event)) \<and>
        truthy (latest_charge (data_object event)) \<and>
        isl (charges_retrieve env (orElse (latest_charge (data_object event)) []))"
      by (simp add: propagatingLookupFails_def Let_def)
    show ?thesis
      unfolding p f
      using handlePaymentIntentSucceeded_throws [of event env, THEN thrown_response]
        handlePaymentIntentSucceeded_acknowledged [of event env, THEN acknowledged_response]
      by blast
  next
    case invoice
    then have p: "fst (POST env req) =
        (case fst (handleInvoicePaymentSucceeded env event) of
           Inr response \<Rightarrow> response | Inl err \<Rightarrow> rejected 500 ''Failed to process webhook'')"
      unfolding POST_authenticated [OF assms] respond by (simp add: fst_entering)
    from invoice have f: "propagatingLookupFails env event \<longleftrightarrow>
        truthy (subscription (data_object event)) \<and>
        (isl (subscriptions_retrieve env (orElse (subscription (data_object event)) [])) \<or>
         isl (customers_retrieve env (customer (data_object event))))"
      by (simp add: propagatingLookupFails_def Let_def)
    show ?thesis
      unfolding p f
      using handleInvoicePaymentSucceeded_throws [of event env, THEN thrown_response]
        handleInvoicePaymentSucceeded_acknowledged [of event env, THEN acknowledged_response]
      by blast
  next
    case other
    then have f: "\<not> propagatingLookupFails env event"
      by (simp add: propagatingLookupFails_def Let_def)
    have "status (fst (POST env req)) = 200 \<and> body_received (fst (POST env req))"
      unfolding POST_authenticated [OF assms] respond using other
      by (simp add: fst_entering fst_ret received_def
          logging_handlers [THEN acknowledged_response]
          handlePaymentFailed_acknowledged [THEN acknowledged_response])
    with f show ?thesis by simp
  qed
qed
theorem storage_failure_acknowledged_witness:
  "stripe_signature (request0 ''invoice.payment_succeeded'') = Some ''good'' \<and> ''good'' \<noteq> [] \<and>
   constructEvent (storageDown paidInvoice) (req_body (request0 ''invoice.payment_succeeded'')) ''good'' =
     Inr \<lparr>event_type = ''invoice.payment_succeeded'', data_object = paidInvoice\<rparr> \<and>
   isl (donors_getFirst (storageDown paidInvoice) ''ada@example.org'') \<and>
   status (fst (POST (storageDown paidInvoice) (request0 ''invoice.payment_succeeded''))) = 200 \<and>
   body_received (fst (POST (storageDown paidInvoice) (request0 ''invoice.payment_succeeded'')))"
proof -
  let ?ev = "\<lparr>event_type = ''invoice.payment_succeeded'', data_object = paidInvoice\<rparr>"
  have a: "stripe_signature (request0 ''invoice.payment_succeeded'') = Some ''good''" and b: "''good'' \<noteq> []"
    by (simp_all add: request0_def)
  have c: "constructEvent (storageDown paidInvoice) (req_body (request0 ''invoice.payment_succeeded'')) ''good'' = Inr ?ev"
    by (simp add: storageDown_def services_def request0_def)
  have d: "\<not> propagatingLookupFails (storageDown paidInvoice) ?ev"
    by (simp add: propagatingLookupFails_def Let_def storageDown_def services_def paidInvoice_def
        noObject_def orElse_def)
  have e: "isl (donors_getFirst (storageDown paidInvoice) ''ada@example.org'')"
    by (simp add: storageDown_def)
  from only_propagating_lookups_reject [OF a b c] d a b c e show ?thesis by simp
qed

text \<open>
  Claim C7 as stated fails for an enrichment failure outside a handler's \<open>try\<close>
  blocks: when the subscription lookup of a subscription invoice throws, the response is
  status 500, not an acknowledgement.
\<close>

theorem failed_subscription_lookup_rejected:
  "constructEvent (stripeDown paidInvoice) (req_body (request0 ''invoice.payment_succeeded'')) ''good'' =
     Inr \<lparr>event_type = ''invoice.payment_succeeded'', data_object = paidInvoice\<rparr> \<and>
   isl (subscriptions_retrieve (stripeDown paidInvoice) ''sub_1'') \<and>
   POST (stripeDown paidInvoice) (request0 ''invoice.payment_succeeded'') =
     (\<lparr>status = 500, body_received = False, body_error = Some ''Failed to process webhook''\<rparr>,
      [Handler ''handleInvoicePaymentSucceeded'', SubscriptionsRetrieve ''sub_1'', CustomersRetrieve ''cus_1''])"
proof -
  have a: "constructEvent (stripeDown paidInvoice) (req_body (request0 ''invoice.payment_succeeded'')) ''good'' =
     Inr \<lparr>event_type = ''invoice.payment_succeeded'', data_object = paidInvoice\<rparr>"
    by (simp add: stripeDown_def services_def request0_def)
  have b: "stripe_signature (request0 ''invoice.payment_succeeded'') = Some ''good''"
    by (simp add: request0_def)
  have "POST (stripeDown paidInvoice) (request0 ''invoice.payment_succeeded'') =
     (\<lparr>status = 500, body_received = False, body_error = Some ''Failed to process webhook''\<rparr>,
      [Handler ''handleInvoicePaymentSucceeded'', SubscriptionsRetrieve ''sub_1'', CustomersRetrieve ''cus_1''])"
    unfolding POST_authenticated [OF b _ a, simplified] respond
    by (simp add: handleInvoicePaymentSucceeded_def Let_def run fst_entering snd_entering
        paidInvoice_def noObject_def stripeDown_def services_def rejected_def)
  with a show ?thesis by (simp add: stripeDown_def)
qed

end
